theory Spec2Isabelle
  imports Main "HOL-Library.Word" "HOL-Library.Signed_Division"
begin

section \<open>Wire vocabulary\<close>

text \<open>
  Modelled from the spec: the header names, the content type and the query parameter
  name are constants of the package that are declared outside the three source files;
  section 6 of the specification gives their wire spellings.
\<close>

definition headerOperationState :: string where
  "headerOperationState = ''Nexus-Operation-State''"

definition HeaderOperationID :: string where
  "HeaderOperationID = ''Nexus-Operation-Id''"

definition headerOperationStartTime :: string where
  "headerOperationStartTime = ''Nexus-Operation-Start-Time''"

definition headerLink :: string where
  "headerLink = ''Nexus-Link''"

definition headerContentType :: string where
  "headerContentType = ''Content-Type''"

definition contentTypeJSON :: string where
  "contentTypeJSON = ''application/json''"

definition queryWait :: string where
  "queryWait = ''wait''"

text \<open>
  Modelled from the spec: \<^verbatim>\<open>type OperationState string\<close> and its values, declared
  outside the source files; section 4.E gives the wire values.
\<close>

type_synonym OperationState = string

definition OperationStateSucceeded :: OperationState where
  "OperationStateSucceeded = ''succeeded''"

definition OperationStateFailed :: OperationState where
  "OperationStateFailed = ''failed''"

definition OperationStateCanceled :: OperationState where
  "OperationStateCanceled = ''canceled''"

text \<open>The status codes of \<^verbatim>\<open>net/http\<close> that the source names.\<close>

definition StatusOK :: int where
  "StatusOK = 200"

definition StatusBadRequest :: int where
  "StatusBadRequest = 400"

definition StatusRequestTimeout :: int where
  "StatusRequestTimeout = 408"

definition StatusInternalServerError :: int where
  "StatusInternalServerError = 500"

text \<open>
  The two reserved protocol status codes, \<^verbatim>\<open>statusOperationRunning\<close> and
  \<^verbatim>\<open>statusOperationFailed\<close>, are constants declared outside the source files and the
  specification does not give their values: they are parameters of the model.
\<close>

record protocol_codes =
  statusOperationRunning :: int
  statusOperationFailed :: int

section \<open>Headers, bodies and failures\<close>

text \<open>
  \<^verbatim>\<open>http.Header\<close> is \<^verbatim>\<open>map[string][]string\<close>: a Go program may store values under
  any key. \<^verbatim>\<open>Get\<close>, \<^verbatim>\<open>Values\<close> and \<^verbatim>\<open>Set\<close> pass the key they are given through
  \<^verbatim>\<open>textproto.CanonicalMIMEHeaderKey\<close> first: a key made of token bytes only gets an
  upper-case letter at its start and after each hyphen and lower-case letters elsewhere;
  any other key is left as it is. \<^verbatim>\<open>Get\<close> returns the first value stored under the
  canonical key, or the empty string; \<^verbatim>\<open>Set\<close> replaces the values under the canonical
  key by the one given. Entries stored under another spelling of a key are neither read
  nor replaced. A nil header map is \<open>None\<close> of \<open>Header option\<close>; reading a nil map yields
  no values.
\<close>

type_synonym Header = "string \<Rightarrow> string list option"

definition validHeaderFieldByte :: "char \<Rightarrow> bool" where
  "validHeaderFieldByte c =
    (let n = (of_char c :: nat)
     in (48 \<le> n \<and> n \<le> 57) \<or> (97 \<le> n \<and> n \<le> 122) \<or> (65 \<le> n \<and> n \<le> 90)
        \<or> c \<in> set [CHR 0x21, CHR 0x23, CHR 0x24, CHR 0x25, CHR 0x26, CHR 0x27, CHR 0x2A, CHR 0x2B,
                     CHR 0x2D, CHR 0x2E, CHR 0x5E, CHR 0x5F, CHR 0x60, CHR 0x7C, CHR 0x7E])"

definition canonicalByte :: "bool \<Rightarrow> char \<Rightarrow> char" where
  \<comment> \<open>\<^verbatim>\<open>if upper && 'a' <= c && c <= 'z' { c -= toLower } else if !upper && 'A' <= c && c <= 'Z' { c += toLower }\<close>\<close>
  "canonicalByte upper c =
    (let n = (of_char c :: nat)
     in if upper \<and> 97 \<le> n \<and> n \<le> 122 then char_of (n - 32)
        else if \<not> upper \<and> 65 \<le> n \<and> n \<le> 90 then char_of (n + 32)
        else c)"

fun canonicalBytes :: "bool \<Rightarrow> string \<Rightarrow> string" where
  "canonicalBytes upper [] = []"
| "canonicalBytes upper (c # cs) =
    canonicalByte upper c # canonicalBytes (canonicalByte upper c = CHR 0x2D) cs"

definition CanonicalMIMEHeaderKey :: "string \<Rightarrow> string" where
  "CanonicalMIMEHeaderKey s = (if list_all validHeaderFieldByte s then canonicalBytes True s else s)"

definition Header_Values :: "Header \<Rightarrow> string \<Rightarrow> string list option" where
  "Header_Values h k = h (CanonicalMIMEHeaderKey k)"

definition Header_Get :: "Header \<Rightarrow> string \<Rightarrow> string" where
  "Header_Get h k =
    (case h (CanonicalMIMEHeaderKey k) of None \<Rightarrow> [] | Some [] \<Rightarrow> [] | Some (v # vs) \<Rightarrow> v)"

definition Header_Set :: "Header \<Rightarrow> string \<Rightarrow> string \<Rightarrow> Header" where
  "Header_Set h k v = h(CanonicalMIMEHeaderKey k \<mapsto> [v])"

definition nilable_Get :: "Header option \<Rightarrow> string \<Rightarrow> string" where
  "nilable_Get ho k = (case ho of None \<Rightarrow> [] | Some h \<Rightarrow> Header_Get h k)"

text \<open>
  A body is an \<^verbatim>\<open>io.ReadCloser\<close>: the bytes it will deliver, the error a read ends in
  (if any), and whether it has been read to its end and closed.
\<close>

record Stream =
  content :: string
  readFails :: bool
  drained :: bool
  closed :: bool

definition newStream :: "string \<Rightarrow> Stream" where
  "newStream b = \<lparr>content = b, readFails = False, drained = False, closed = False\<rparr>"

text \<open>
  Modelled from the spec: \<^verbatim>\<open>Failure\<close> is declared outside the source files; section 3
  describes it as a message with further structured fields that are opaque to the core.
\<close>

record Failure =
  Message :: string
  Metadata :: "(string \<times> string) list"
  Details :: string

definition messageFailure :: "string \<Rightarrow> Failure" where
  "messageFailure m = \<lparr>Message = m, Metadata = [], Details = []\<rparr>"

section \<open>Errors\<close>

text \<open>
  Modelled from the spec: the sentinels \<^verbatim>\<open>ErrOperationStillRunning\<close> and
  \<^verbatim>\<open>errOperationWaitTimeout\<close> and the type \<^verbatim>\<open>UnsuccessfulOperationError\<close> are declared
  outside the source files (sections 3, 4.D and 7 describe them: two distinct sentinels,
  and an operation state with a failure). \<^verbatim>\<open>HandlerError\<close> is declared in server.go.
  \<open>OtherError\<close> is any other error value, \<open>Wrapped\<close> an error that wraps another one
  (\<^verbatim>\<open>fmt.Errorf\<close> with \<^verbatim>\<open>%w\<close>). An error that is a \<^verbatim>\<open>*HandlerError\<close> or a
  \<^verbatim>\<open>*UnsuccessfulOperationError\<close> holds a pointer that is not nil.
\<close>

datatype go_error =
    ErrOperationStillRunning
  | errOperationWaitTimeout
  | UnsuccessfulOperationError OperationState Failure
  | HandlerError int "Failure option"
  | OtherError string
  | Wrapped string go_error

text \<open>\<^verbatim>\<open>errors.As\<close> and \<^verbatim>\<open>errors.Is\<close> walk the chain of wrapped errors.\<close>

fun as_UnsuccessfulOperationError :: "go_error \<Rightarrow> (OperationState \<times> Failure) option" where
  "as_UnsuccessfulOperationError (UnsuccessfulOperationError st f) = Some (st, f)"
| "as_UnsuccessfulOperationError (Wrapped m e) = as_UnsuccessfulOperationError e"
| "as_UnsuccessfulOperationError e = None"

fun as_HandlerError :: "go_error \<Rightarrow> (int \<times> Failure option) option" where
  "as_HandlerError (HandlerError code f) = Some (code, f)"
| "as_HandlerError (Wrapped m e) = as_HandlerError e"
| "as_HandlerError e = None"

fun errors_Is :: "go_error \<Rightarrow> go_error \<Rightarrow> bool" where
  "errors_Is (Wrapped m e) target = (Wrapped m e = target \<or> errors_Is e target)"
| "errors_Is e target = (e = target)"

definition newBadRequestError :: "string \<Rightarrow> go_error" where
  "newBadRequestError m = HandlerError StatusBadRequest (Some (messageFailure m))"

section \<open>Building a completion request (completion.go)\<close>

text \<open>
  The part of \<^verbatim>\<open>*http.Request\<close> the completion code touches. \<^verbatim>\<open>time.Time\<close> is an
  instant counted from the zero time, so \<^verbatim>\<open>IsZero\<close> is equality with 0. Links are opaque
  (a type parameter).
\<close>

record HTTPRequest =
  reqHeader :: Header
  reqBody :: "Stream option"

type_synonym Time = int

definition IsZero :: "Time \<Rightarrow> bool" where
  "IsZero t = (t = 0)"

text \<open>
  The collaborators of the completion code that live outside the source files:
  \<^verbatim>\<open>addLinksToHTTPHeader\<close> (it changes the header it is given and may fail),
  \<^verbatim>\<open>time.Time.Format\<close> with \<^verbatim>\<open>http.TimeFormat\<close>, and \<^verbatim>\<open>json.Marshal\<close> of a
  \<^verbatim>\<open>*Failure\<close> (nil included).
\<close>

record 'l completion_deps =
  addLinksToHTTPHeader :: "'l list \<Rightarrow> Header \<Rightarrow> Header \<times> go_error option"
  formatHTTPTime :: "Time \<Rightarrow> string"
  marshalFailurePtr :: "Failure option \<Rightarrow> go_error + string"

record 'l OperationCompletionSuccessful =
  cs_Header :: "Header option"
  cs_Body :: Stream
  cs_OperationID :: string
  cs_StartTime :: Time
  cs_StartLinks :: "'l list"

record 'l OperationCompletionUnsuccessful =
  cu_Header :: "Header option"
  cu_State :: OperationState
  cu_OperationID :: string
  cu_StartTime :: Time
  cu_StartLinks :: "'l list"
  cu_Failure :: "Failure option"

text \<open>
  \<^verbatim>\<open>applyToHTTPRequest\<close> changes the request it is given and returns an error: the
  model returns the request as it is left, and the error. \<open>Clone\<close> of a header is the
  header (values are not shared in HOL).
\<close>

definition baseHeader :: "Header option \<Rightarrow> HTTPRequest \<Rightarrow> Header" where
  "baseHeader cHeader request = (case cHeader of None \<Rightarrow> reqHeader request | Some ch \<Rightarrow> ch)"

definition applyToHTTPRequest_Successful ::
  "'l completion_deps \<Rightarrow> 'l OperationCompletionSuccessful \<Rightarrow> HTTPRequest \<Rightarrow>
   HTTPRequest \<times> go_error option" where
  "applyToHTTPRequest_Successful deps c request =
    (let h1 = baseHeader (cs_Header c) request;
         h2 = Header_Set h1 headerOperationState OperationStateSucceeded;
         h3 = (if nilable_Get (cs_Header c) HeaderOperationID = [] \<and> cs_OperationID c \<noteq> []
               then Header_Set h2 HeaderOperationID (cs_OperationID c) else h2);
         h4 = (if nilable_Get (cs_Header c) headerOperationStartTime = [] \<and> \<not> IsZero (cs_StartTime c)
               then Header_Set h3 headerOperationStartTime (formatHTTPTime deps (cs_StartTime c))
               else h3);
         (h5, linkErr) = (if nilable_Get (cs_Header c) headerLink = []
               then addLinksToHTTPHeader deps (cs_StartLinks c) h4
               else (h4, None))
     in case linkErr of
          Some err \<Rightarrow> (request\<lparr>reqHeader := h5\<rparr>, Some err)
        | None \<Rightarrow> (request\<lparr>reqHeader := h5, reqBody := Some (cs_Body c)\<rparr>, None))"

definition applyToHTTPRequest_Unsuccessful ::
  "'l completion_deps \<Rightarrow> 'l OperationCompletionUnsuccessful \<Rightarrow> HTTPRequest \<Rightarrow>
   HTTPRequest \<times> go_error option" where
  "applyToHTTPRequest_Unsuccessful deps c request =
    (let h1 = baseHeader (cu_Header c) request;
         h2 = Header_Set h1 headerOperationState (cu_State c);
         h2' = Header_Set h2 headerContentType contentTypeJSON;
         h3 = (if nilable_Get (cu_Header c) HeaderOperationID = [] \<and> cu_OperationID c \<noteq> []
               then Header_Set h2' HeaderOperationID (cu_OperationID c) else h2');
         h4 = (if nilable_Get (cu_Header c) headerOperationStartTime = [] \<and> \<not> IsZero (cu_StartTime c)
               then Header_Set h3 headerOperationStartTime (formatHTTPTime deps (cu_StartTime c))
               else h3);
         (h5, linkErr) = (if nilable_Get (cu_Header c) headerLink = []
               then addLinksToHTTPHeader deps (cu_StartLinks c) h4
               else (h4, None))
     in case linkErr of
          Some err \<Rightarrow> (request\<lparr>reqHeader := h5\<rparr>, Some err)
        | None \<Rightarrow>
            (case marshalFailurePtr deps (cu_Failure c) of
               Inl err \<Rightarrow> (request\<lparr>reqHeader := h5\<rparr>, Some err)
             | Inr b \<Rightarrow> (request\<lparr>reqHeader := h5, reqBody := Some (newStream b)\<rparr>, None)))"

text \<open>
  The header each variant has built when it reaches the test of the link header
  (lines 108 and 151): what the link encoder is applied to.
\<close>

definition successful_header_before_links ::
  "'l completion_deps \<Rightarrow> 'l OperationCompletionSuccessful \<Rightarrow> HTTPRequest \<Rightarrow> Header" where
  "successful_header_before_links deps c request =
    (let h2 = Header_Set (baseHeader (cs_Header c) request) headerOperationState OperationStateSucceeded;
         h3 = (if nilable_Get (cs_Header c) HeaderOperationID = [] \<and> cs_OperationID c \<noteq> []
               then Header_Set h2 HeaderOperationID (cs_OperationID c) else h2)
     in if nilable_Get (cs_Header c) headerOperationStartTime = [] \<and> \<not> IsZero (cs_StartTime c)
        then Header_Set h3 headerOperationStartTime (formatHTTPTime deps (cs_StartTime c))
        else h3)"

definition unsuccessful_header_before_links ::
  "'l completion_deps \<Rightarrow> 'l OperationCompletionUnsuccessful \<Rightarrow> HTTPRequest \<Rightarrow> Header" where
  "unsuccessful_header_before_links deps c request =
    (let h2 = Header_Set (baseHeader (cu_Header c) request) headerOperationState (cu_State c);
         h2' = Header_Set h2 headerContentType contentTypeJSON;
         h3 = (if nilable_Get (cu_Header c) HeaderOperationID = [] \<and> cu_OperationID c \<noteq> []
               then Header_Set h2' HeaderOperationID (cu_OperationID c) else h2')
     in if nilable_Get (cu_Header c) headerOperationStartTime = [] \<and> \<not> IsZero (cu_StartTime c)
        then Header_Set h3 headerOperationStartTime (formatHTTPTime deps (cu_StartTime c))
        else h3)"

text \<open>
  The contract of the link encoder that the header properties rest on: it writes
  under the link header only.
\<close>

definition links_only :: "'l completion_deps \<Rightarrow> bool" where
  "links_only deps =
    (\<forall>ls h k. k \<noteq> headerLink \<longrightarrow> fst (addLinksToHTTPHeader deps ls h) k = h k)"

section \<open>Paths and escaping (Go's \<^verbatim>\<open>path\<close> and \<^verbatim>\<open>net/url\<close>)\<close>

text \<open>
  The source calls \<^verbatim>\<open>path.Split\<close>, \<^verbatim>\<open>path.Dir\<close>, \<^verbatim>\<open>path.Base\<close>, \<^verbatim>\<open>url.PathEscape\<close>,
  \<^verbatim>\<open>url.PathUnescape\<close> and \<^verbatim>\<open>URL.JoinPath\<close> of Go's standard library. They are
  written out here after the library's code. A Go string is a sequence of bytes, as
  \<open>string\<close> is.
\<close>

definition path_Split :: "string \<Rightarrow> string \<times> string" where
  \<comment> \<open>\<^verbatim>\<open>i := LastIndexByte(path, '/'); return path[:i+1], path[i+1:]\<close>\<close>
  "path_Split p =
    (let file = rev (takeWhile (\<lambda>c. c \<noteq> CHR ''/'') (rev p))
     in (take (length p - length file) p, file))"

fun splitSlash :: "string \<Rightarrow> string list" where
  "splitSlash [] = [[]]"
| "splitSlash (c # cs) =
    (if c = CHR ''/'' then [] # splitSlash cs
     else (case splitSlash cs of [] \<Rightarrow> [[c]] | e # es \<Rightarrow> (c # e) # es))"

fun joinSlash :: "string list \<Rightarrow> string" where
  "joinSlash [] = []"
| "joinSlash [e] = e"
| "joinSlash (e # es) = e @ CHR ''/'' # joinSlash es"

text \<open>
  \<^verbatim>\<open>path.Clean\<close>, element by element: \<open>out\<close> holds the elements written so far and
  \<open>dotdot\<close> counts the leading \<^verbatim>\<open>..\<close> elements that a later \<^verbatim>\<open>..\<close> cannot remove.
\<close>

fun cleanElems :: "bool \<Rightarrow> string list \<Rightarrow> nat \<Rightarrow> string list \<Rightarrow> string list" where
  "cleanElems rooted out dotdot [] = out"
| "cleanElems rooted out dotdot (e # es) =
    (if e = [] \<or> e = ''.'' then cleanElems rooted out dotdot es
     else if e = ''..'' then
       (if length out > dotdot then cleanElems rooted (butlast out) dotdot es
        else if \<not> rooted then cleanElems rooted (out @ [''..'']) (length out + 1) es
        else cleanElems rooted out dotdot es)
     else cleanElems rooted (out @ [e]) dotdot es)"

definition path_Clean :: "string \<Rightarrow> string" where
  "path_Clean p =
    (if p = [] then ''.''
     else if hd p = CHR ''/'' then CHR ''/'' # joinSlash (cleanElems True [] 0 (splitSlash (tl p)))
     else (let out = cleanElems False [] 0 (splitSlash p)
           in if out = [] then ''.'' else joinSlash out))"

definition path_Dir :: "string \<Rightarrow> string" where
  "path_Dir p = path_Clean (fst (path_Split p))"

definition path_Base :: "string \<Rightarrow> string" where
  "path_Base p =
    (if p = [] then ''.''
     else (let stripped = rev (dropWhile (\<lambda>c. c = CHR ''/'') (rev p));
               last_elem = snd (path_Split stripped)
           in if last_elem = [] then ''/'' else last_elem))"

definition path_Join :: "string list \<Rightarrow> string" where
  "path_Join elem =
    (if concat elem = [] then []
     else path_Clean (joinSlash (filter (\<lambda>e. e \<noteq> []) elem)))"

datatype encoding = encodePath | encodePathSegment

definition isAlnum :: "char \<Rightarrow> bool" where
  "isAlnum c =
    (let n = (of_char c :: nat)
     in (97 \<le> n \<and> n \<le> 122) \<or> (65 \<le> n \<and> n \<le> 90) \<or> (48 \<le> n \<and> n \<le> 57))"

definition shouldEscape :: "char \<Rightarrow> encoding \<Rightarrow> bool" where
  "shouldEscape c mode =
    (if isAlnum c then False
     else if c \<in> set ''-_.~'' then False
     else if c \<in> set ''$&+,/:;=?@'' then
       (case mode of
          encodePath \<Rightarrow> c = CHR ''?''
        | encodePathSegment \<Rightarrow> c = CHR ''/'' \<or> c = CHR '';'' \<or> c = CHR '','' \<or> c = CHR ''?'')
     else True)"

definition upperhex :: "nat \<Rightarrow> char" where
  "upperhex n = ''0123456789ABCDEF'' ! n"

definition escape :: "string \<Rightarrow> encoding \<Rightarrow> string" where
  "escape s mode =
    concat (map (\<lambda>c. if shouldEscape c mode
                      then [CHR ''%'', upperhex (of_char c div 16), upperhex (of_char c mod 16)]
                      else [c]) s)"

definition ishex :: "char \<Rightarrow> bool" where
  "ishex c =
    (let n = (of_char c :: nat)
     in (48 \<le> n \<and> n \<le> 57) \<or> (97 \<le> n \<and> n \<le> 102) \<or> (65 \<le> n \<and> n \<le> 70))"

definition unhex :: "char \<Rightarrow> nat" where
  "unhex c =
    (let n = (of_char c :: nat)
     in if 48 \<le> n \<and> n \<le> 57 then n - 48
        else if 97 \<le> n \<and> n \<le> 102 then n - 97 + 10
        else if 65 \<le> n \<and> n \<le> 70 then n - 65 + 10
        else 0)"

text \<open>
  \<^verbatim>\<open>unescape\<close> in the two path modes: a \<^verbatim>\<open>%\<close> must be followed by two hex digits
  (otherwise an \<^verbatim>\<open>EscapeError\<close>, here \<open>None\<close>); a \<^verbatim>\<open>+\<close> stays a \<^verbatim>\<open>+\<close>.
\<close>

fun unescape :: "string \<Rightarrow> string option" where
  "unescape [] = Some []"
| "unescape (c # cs) =
    (if c = CHR ''%'' then
       (case cs of
          h1 # h2 # rest \<Rightarrow>
            (if ishex h1 \<and> ishex h2
             then map_option ((#) (char_of (unhex h1 * 16 + unhex h2))) (unescape rest)
             else None)
        | _ \<Rightarrow> None)
     else map_option ((#) c) (unescape cs))"

definition PathEscape :: "string \<Rightarrow> string" where
  "PathEscape s = escape s encodePathSegment"

definition PathUnescape :: "string \<Rightarrow> string option" where
  "PathUnescape s = unescape s"

text \<open>
  The fields of \<^verbatim>\<open>url.URL\<close> the source reads and writes. The query is kept in parsed
  form (\<^verbatim>\<open>url.Values\<close>, what \<^verbatim>\<open>URL.Query()\<close> returns and \<^verbatim>\<open>Encode\<close> writes): the empty
  \<^verbatim>\<open>RawQuery\<close> is the empty list. The order of the entries carries no meaning
  (\<^verbatim>\<open>Encode\<close> writes them sorted by key).
\<close>

type_synonym Values = "(string \<times> string list) list"

definition Values_Get :: "Values \<Rightarrow> string \<Rightarrow> string" where
  "Values_Get q k = (case map_of q k of None \<Rightarrow> [] | Some [] \<Rightarrow> [] | Some (v # vs) \<Rightarrow> v)"

definition Values_Set :: "Values \<Rightarrow> string \<Rightarrow> string \<Rightarrow> Values" where
  "Values_Set q k v = (k, [v]) # filter (\<lambda>kv. fst kv \<noteq> k) q"

record URL =
  Path :: string
  RawPath :: string
  RawQuery :: Values

definition setPath :: "URL \<Rightarrow> string \<Rightarrow> URL option" where
  "setPath u p =
    (case unescape p of
       None \<Rightarrow> None
     | Some path \<Rightarrow>
         Some (u\<lparr>Path := path, RawPath := (if escape path encodePath = p then [] else p)\<rparr>))"

definition validEncoded :: "string \<Rightarrow> encoding \<Rightarrow> bool" where
  "validEncoded s mode =
    list_all (\<lambda>c. c \<in> set ''!$&'' \<or> c = CHR 0x27 \<or> c \<in> set ''()*+,;=:@[]%''
                   \<or> \<not> shouldEscape c mode) s"

definition EscapedPath :: "URL \<Rightarrow> string" where
  "EscapedPath u =
    (if RawPath u \<noteq> [] \<and> validEncoded (RawPath u) encodePath
        \<and> unescape (RawPath u) = Some (Path u) then RawPath u
     else if Path u = ''*'' then ''*''
     else escape (Path u) encodePath)"

definition hasSuffixSlash :: "string \<Rightarrow> bool" where
  "hasSuffixSlash s = (s \<noteq> [] \<and> last s = CHR ''/'')"

definition JoinPath :: "URL \<Rightarrow> string list \<Rightarrow> URL" where
  "JoinPath u elem =
    (let e0 = EscapedPath u;
         p = (if e0 \<noteq> [] \<and> hd e0 = CHR ''/'' then path_Join (e0 # elem)
              else tl (path_Join ((CHR ''/'' # e0) # elem)));
         p' = (if hasSuffixSlash (last (e0 # elem)) \<and> \<not> hasSuffixSlash p then p @ ''/'' else p)
     in case setPath u p' of None \<Rightarrow> u | Some u' \<Rightarrow> u')"

text \<open>
  The path as it reaches the server. \<^verbatim>\<open>URL.String\<close> writes \<^verbatim>\<open>EscapedPath\<close>, with a
  leading slash when the URL has a host (the client's base URL has one);
  \<^verbatim>\<open>http.NewRequestWithContext\<close> parses that string; the transport writes the request
  line from \<^verbatim>\<open>RequestURI\<close> (the escaped path, or a slash for the empty path); and the
  server parses the request line with \<^verbatim>\<open>setPath\<close> again.
\<close>

definition String_path :: "URL \<Rightarrow> string" where
  "String_path u =
    (let p = EscapedPath u in if p \<noteq> [] \<and> hd p \<noteq> CHR ''/'' then CHR ''/'' # p else p)"

definition RequestURI_path :: "URL \<Rightarrow> string" where
  "RequestURI_path u = (let p = EscapedPath u in if p = [] then ''/'' else p)"

definition emptyURL :: URL where
  "emptyURL = \<lparr>Path = [], RawPath = [], RawQuery = []\<rparr>"

definition serverURL :: "URL \<Rightarrow> URL option" where
  "serverURL clientURL =
    (case setPath (emptyURL\<lparr>RawQuery := RawQuery clientURL\<rparr>) (String_path clientURL) of
       None \<Rightarrow> None
     | Some requestURL \<Rightarrow>
         setPath (emptyURL\<lparr>RawQuery := RawQuery requestURL\<rparr>) (RequestURI_path requestURL))"

section \<open>Rendering responses (server.go)\<close>

text \<open>
  \<^verbatim>\<open>http.ResponseWriter\<close>, as the HTTP/1 server of \<^verbatim>\<open>net/http\<close> implements it and as the
  calls made on it leave it: the header map the handler writes to, the informational (1xx)
  responses sent so far, the status code of the response once a call has fixed it, and
  the bytes of the body that were accepted.

  \<^verbatim>\<open>WriteHeader\<close> changes nothing once the status is fixed (the call is only logged).
  Otherwise it panics on a code outside 100..999; a code from 100 to 199 other than 101
  is sent at once as an informational response and leaves the status open; any other
  code becomes the status of the response. \<^verbatim>\<open>Write\<close> first fixes the status 200 when
  none is fixed yet, and then appends the bytes, unless the status allows no body (1xx,
  204 and 304: the bytes are refused with \<^verbatim>\<open>ErrBodyNotAllowed\<close>). The source only logs
  an error of \<^verbatim>\<open>Write\<close>, and logging is not modelled.

  Outside the model: a hijacked connection, the reply to a HEAD request, a connection
  that fails, and the accounting of a \<^verbatim>\<open>Content-Length\<close> header set by the handler (the
  source files set none).
\<close>

datatype panic = NilPointerDereference | InvalidWriteHeaderCode int

record ResponseWriter =
  rwHeader :: Header
  rwInformational :: "int list"
  rwStatus :: "int option"
  rwBody :: string

definition newResponseWriter :: ResponseWriter where
  "newResponseWriter = \<lparr>rwHeader = (\<lambda>k. None), rwInformational = [], rwStatus = None, rwBody = []\<rparr>"

definition StatusSwitchingProtocols :: int where
  "StatusSwitchingProtocols = 101"

definition StatusNoContent :: int where
  "StatusNoContent = 204"

definition StatusNotModified :: int where
  "StatusNotModified = 304"

definition WriteHeader :: "ResponseWriter \<Rightarrow> int \<Rightarrow> panic + ResponseWriter" where
  "WriteHeader w code =
    (if rwStatus w \<noteq> None then Inr w
     else if code < 100 \<or> 999 < code then Inl (InvalidWriteHeaderCode code)
     else if 100 \<le> code \<and> code \<le> 199 \<and> code \<noteq> StatusSwitchingProtocols
     then Inr (w\<lparr>rwInformational := rwInformational w @ [code]\<rparr>)
     else Inr (w\<lparr>rwStatus := Some code\<rparr>))"

definition bodyAllowedForStatus :: "int \<Rightarrow> bool" where
  "bodyAllowedForStatus status =
    (if 100 \<le> status \<and> status \<le> 199 then False
     else if status = StatusNoContent then False
     else if status = StatusNotModified then False
     else True)"

definition responseStatus :: "ResponseWriter \<Rightarrow> int" where
  \<comment> \<open>the status the client receives: 200 when the handler fixed none\<close>
  "responseStatus w = (case rwStatus w of None \<Rightarrow> StatusOK | Some code \<Rightarrow> code)"

definition Write :: "ResponseWriter \<Rightarrow> string \<Rightarrow> ResponseWriter" where
  "Write w b =
    (let w' = (if rwStatus w = None then w\<lparr>rwStatus := Some StatusOK\<rparr> else w)
     in if b = [] then w'
        else if \<not> bodyAllowedForStatus (responseStatus w') then w'
        else w'\<lparr>rwBody := rwBody w' @ b\<rparr>)"

text \<open>
  What the client receives when \<^verbatim>\<open>WriteHeader\<close> is called with a code on a writer whose
  status is open and the handler fixes no other status: no response after the panic,
  200 after an informational code, the code otherwise.
\<close>

definition statusSent :: "int \<Rightarrow> panic + int" where
  "statusSent code =
    (if code < 100 \<or> 999 < code then Inl (InvalidWriteHeaderCode code)
     else if 100 \<le> code \<and> code \<le> 199 \<and> code \<noteq> StatusSwitchingProtocols then Inr StatusOK
     else Inr code)"

definition SetHeader :: "ResponseWriter \<Rightarrow> string \<Rightarrow> string \<Rightarrow> ResponseWriter" where
  \<comment> \<open>\<^verbatim>\<open>writer.Header().Set(k, v)\<close>\<close>
  "SetHeader w k v = w\<lparr>rwHeader := Header_Set (rwHeader w) k v\<rparr>"

text \<open>
  What every handler of the package is given: the reserved status codes and
  \<^verbatim>\<open>json.Marshal\<close> of a \<^verbatim>\<open>*Failure\<close> (\<open>None\<close> when it returns an error).
\<close>

record server_deps =
  codes :: protocol_codes
  jsonMarshalFailure :: "Failure \<Rightarrow> string option"

text \<open>
  A call of \<^verbatim>\<open>WriteHeader\<close> followed by a call of \<^verbatim>\<open>Write\<close>: a panic of the first ends
  the handler.
\<close>

definition WriteHeader_then_Write :: "ResponseWriter \<Rightarrow> int \<Rightarrow> string \<Rightarrow> panic + ResponseWriter" where
  "WriteHeader_then_Write w code b =
    (case WriteHeader w code of Inl p \<Rightarrow> Inl p | Inr w' \<Rightarrow> Inr (Write w' b))"

text \<open>Lines 236 to 251 of \<^verbatim>\<open>writeFailure\<close>: the body, the content type, the status.\<close>

definition renderFailure ::
  "'a server_deps_scheme \<Rightarrow> ResponseWriter \<Rightarrow> int \<Rightarrow> Failure option \<Rightarrow> panic + ResponseWriter" where
  "renderFailure deps writer statusCode failure =
    (case failure of
       None \<Rightarrow> WriteHeader_then_Write writer statusCode []
     | Some f \<Rightarrow>
         (case jsonMarshalFailure deps f of
            None \<Rightarrow> WriteHeader writer StatusInternalServerError
          | Some bytes \<Rightarrow>
              WriteHeader_then_Write (SetHeader writer headerContentType contentTypeJSON)
                statusCode bytes))"

definition writeFailure ::
  "'a server_deps_scheme \<Rightarrow> ResponseWriter \<Rightarrow> go_error \<Rightarrow> panic + ResponseWriter" where
  "writeFailure deps writer err =
    (case as_UnsuccessfulOperationError err of
       Some (operationState, failure) \<Rightarrow>
         if operationState = OperationStateFailed \<or> operationState = OperationStateCanceled
         then renderFailure deps (SetHeader writer headerOperationState operationState)
                (statusOperationFailed (codes deps)) (Some failure)
         else WriteHeader writer StatusInternalServerError
     | None \<Rightarrow>
         (case as_HandlerError err of
            Some (statusCode, failure) \<Rightarrow> renderFailure deps writer statusCode failure
          | None \<Rightarrow>
              renderFailure deps writer StatusInternalServerError
                (Some (messageFailure ''internal server error''))))"

section \<open>The completion handler (completion.go)\<close>

text \<open>
  A \<^verbatim>\<open>LazyValue\<close> pairs a serializer with a \<^verbatim>\<open>Reader\<close>: a body and the header that
  \<^verbatim>\<open>prefixStrippedHTTPHeaderToNexusHeader\<close> (outside the source files, a parameter) makes
  of the transport header.
\<close>

record Reader =
  ReadCloser :: Stream
  rdHeader :: Header

record 's LazyValue =
  serializer :: 's
  Reader :: Reader

record ServerRequest =
  srHeader :: Header
  srBody :: Stream
  srURL :: URL

record ('l, 's) CompletionRequest =
  cr_State :: OperationState
  cr_OperationID :: string
  cr_StartTime :: Time
  cr_StartLinks :: "'l list"
  cr_Failure :: "Failure option"
  cr_Result :: "'s LazyValue option"

text \<open>
  The collaborators of the completion handler: the user's \<^verbatim>\<open>CompletionHandler\<close>, the
  configured serializer, and the helpers that live outside the source files
  (\<^verbatim>\<open>http.ParseTime\<close>, \<^verbatim>\<open>getLinksFromHeader\<close>, \<^verbatim>\<open>isMediaTypeJSON\<close>, \<^verbatim>\<open>json.Unmarshal\<close>
  into a \<^verbatim>\<open>Failure\<close>, the \<^verbatim>\<open>%q\<close> verb of \<^verbatim>\<open>fmt\<close>, the header projection).
\<close>

record ('l, 's) completion_handler_deps = server_deps +
  CompleteOperation :: "('l, 's) CompletionRequest \<Rightarrow> go_error option"
  optionsSerializer :: 's
  ParseTime :: "string \<Rightarrow> Time option"
  getLinksFromHeader :: "Header \<Rightarrow> 'l list option"
  isMediaTypeJSON :: "string \<Rightarrow> bool"
  jsonUnmarshalFailure :: "string \<Rightarrow> Failure option"
  quoted :: "string \<Rightarrow> string"
  prefixStrippedHTTPHeaderToNexusHeader :: "Header \<Rightarrow> Header"

text \<open>
  Modelled from the spec: \<^verbatim>\<open>HandlerErrorf\<close> and \<^verbatim>\<open>HandlerErrorTypeBadRequest\<close> are
  declared outside the source files; section 4.E says that each of these rejections is
  a 400 bad request, so the error is the \<^verbatim>\<open>HandlerError\<close> of server.go with status 400
  and the formatted message.
\<close>

definition HandlerErrorf_BadRequest :: "string \<Rightarrow> go_error" where
  "HandlerErrorf_BadRequest m = HandlerError StatusBadRequest (Some (messageFailure m))"

definition ReadAll :: "Stream \<Rightarrow> string option" where
  "ReadAll s = (if readFails s then None else Some (content s))"

text \<open>
  \<^verbatim>\<open>ServeHTTP\<close> returns the response and, when the user's handler was invoked, the
  request it was invoked with.
\<close>

definition completion_ServeHTTP ::
  "('l, 's) completion_handler_deps \<Rightarrow> ResponseWriter \<Rightarrow> ServerRequest \<Rightarrow>
   (panic + ResponseWriter) \<times> ('l, 's) CompletionRequest option" where
  "completion_ServeHTTP h writer request =
    (let state = Header_Get (srHeader request) headerOperationState;
         operationID = Header_Get (srHeader request) HeaderOperationID;
         startTimeHeader = Header_Get (srHeader request) headerOperationStartTime;
         startTime = (if startTimeHeader \<noteq> [] then ParseTime h startTimeHeader else Some 0)
     in case startTime of
          None \<Rightarrow> (writeFailure h writer
                     (HandlerErrorf_BadRequest ''failed to parse operation start time header''), None)
        | Some st \<Rightarrow>
     (case getLinksFromHeader h (srHeader request) of
          None \<Rightarrow> (writeFailure h writer
                     (HandlerErrorf_BadRequest ''failed to decode links from request headers''), None)
        | Some links \<Rightarrow>
     (let completion = \<lparr>cr_State = state, cr_OperationID = operationID, cr_StartTime = st,
                         cr_StartLinks = links, cr_Failure = None, cr_Result = None\<rparr>;
          invoke = (\<lambda>c. ((case CompleteOperation h c of
                             Some err \<Rightarrow> writeFailure h writer err
                           | None \<Rightarrow> Inr writer), Some c))
      in if state = OperationStateFailed \<or> state = OperationStateCanceled then
           (if \<not> isMediaTypeJSON h (Header_Get (srHeader request) headerContentType) then
              (writeFailure h writer
                 (HandlerErrorf_BadRequest (''invalid request content type: ''
                    @ quoted h (Header_Get (srHeader request) headerContentType))), None)
            else case ReadAll (srBody request) of
                   None \<Rightarrow> (writeFailure h writer
                      (HandlerErrorf_BadRequest ''failed to read Failure from request body''), None)
                 | Some b \<Rightarrow>
                     (case jsonUnmarshalFailure h b of
                        None \<Rightarrow> (writeFailure h writer
                          (HandlerErrorf_BadRequest ''failed to read Failure from request body''), None)
                      | Some failure \<Rightarrow> invoke (completion\<lparr>cr_Failure := Some failure\<rparr>)))
         else if state = OperationStateSucceeded then
           invoke (completion\<lparr>cr_Result := Some
             \<lparr>serializer = optionsSerializer h,
              Reader = \<lparr>ReadCloser = srBody request,
                        rdHeader = prefixStrippedHTTPHeaderToNexusHeader h (srHeader request)\<rparr>\<rparr>\<rparr>)
         else
           (writeFailure h writer
              (HandlerErrorf_BadRequest (''invalid request operation state: '' @ quoted h state)),
            None))))"

section \<open>The operation handlers (server.go)\<close>

type_synonym Duration = "64 word"

record GetOperationInfoRequest =
  gi_Operation :: string
  gi_OperationID :: string

record GetOperationResultRequest =
  gr_Operation :: string
  gr_OperationID :: string
  gr_Wait :: Duration

record OperationInfo =
  oi_ID :: string
  oi_State :: OperationState

record OperationResponseSync =
  rs_Header :: "(string \<times> string list) list"
  rs_Body :: Stream

text \<open>
  \<^verbatim>\<open>OperationResponseSync.applyToHTTPResponse\<close>: the response's header entries replace
  the writer's, and the body is copied to the writer (a body whose read fails writes
  nothing; the error is only logged).
\<close>

definition applyToHTTPResponse_Sync :: "OperationResponseSync \<Rightarrow> ResponseWriter \<Rightarrow> ResponseWriter" where
  "applyToHTTPResponse_Sync r writer =
    (let w = writer\<lparr>rwHeader := foldl (\<lambda>h (k, v). h(k \<mapsto> v)) (rwHeader writer) (rs_Header r)\<rparr>
     in case ReadAll (rs_Body r) of
          None \<Rightarrow> w
        | Some b \<Rightarrow> if b = [] then w else Write w b)"

text \<open>
  The user's \<^verbatim>\<open>Handler\<close> and what the dispatcher reads around its call.
  \<^verbatim>\<open>GetOperationResult\<close> returns a Go pair (response, error), either of which may be nil.
  \<open>requestCtxDone\<close> and \<open>timeoutFired\<close> say, for the moment the handler has returned,
  whether the request's own context is done and whether \<^verbatim>\<open>GetResultTimeout\<close> has run
  out on the context derived from it. \<^verbatim>\<open>time.ParseDuration\<close> and the configured
  \<^verbatim>\<open>Marshaler\<close> are parameters.
\<close>

record handler_deps = server_deps +
  GetOperationResult ::
    "bool \<Rightarrow> GetOperationResultRequest \<Rightarrow> OperationResponseSync option \<times> go_error option"
  GetOperationInfo :: "GetOperationInfoRequest \<Rightarrow> OperationInfo option \<times> go_error option"
  Marshaler :: "OperationInfo option \<Rightarrow> go_error + string"
  ParseDuration :: "string \<Rightarrow> Duration option"
  requestCtxDone :: bool
  timeoutFired :: bool

text \<open>
  \<^verbatim>\<open>ctx.Err() != nil\<close> for the context the handler was given: the derived one when the
  request carried a wait parameter, the request's own otherwise.
\<close>

definition ctxErrNonNil :: "'a handler_deps_scheme \<Rightarrow> bool \<Rightarrow> bool" where
  "ctxErrNonNil h derived = (if derived then requestCtxDone h \<or> timeoutFired h else requestCtxDone h)"

text \<open>
  Lines 304 to 315 of \<^verbatim>\<open>getOperationResult\<close>: the call of the user's handler and the
  response made of what it returns (or the panic of calling a method on a nil
  response). \<open>derived\<close> says whether the handler's context is the derived one; the
  handler is told.
\<close>

definition respondGetResult ::
  "'a handler_deps_scheme \<Rightarrow> ResponseWriter \<Rightarrow> bool \<Rightarrow> GetOperationResultRequest \<Rightarrow>
   panic + ResponseWriter" where
  "respondGetResult h writer derived handlerRequest =
    (case GetOperationResult h derived handlerRequest of
       (response, maybeErr) \<Rightarrow>
         (case maybeErr of
            Some err \<Rightarrow>
              if 0 <s gr_Wait handlerRequest \<and> ctxErrNonNil h derived
              then WriteHeader writer StatusRequestTimeout
              else if errors_Is err ErrOperationStillRunning
              then WriteHeader writer (statusOperationRunning (codes h))
              else writeFailure h writer err
          | None \<Rightarrow>
              (case response of
                 None \<Rightarrow> Inl NilPointerDereference
               | Some r \<Rightarrow> Inr (applyToHTTPResponse_Sync r writer))))"

definition waitStrOf :: "ServerRequest \<Rightarrow> string" where
  \<comment> \<open>\<^verbatim>\<open>request.URL.Query().Get(queryWait)\<close>\<close>
  "waitStrOf request = Values_Get (RawQuery (srURL request)) queryWait"

text \<open>
  \<^verbatim>\<open>getOperationResult\<close> returns the response and, when the user's handler was
  invoked, the request it was given.
\<close>

definition getOperationResult ::
  "'a handler_deps_scheme \<Rightarrow> ResponseWriter \<Rightarrow> ServerRequest \<Rightarrow>
   (panic + ResponseWriter) \<times> GetOperationResultRequest option" where
  "getOperationResult h writer request =
    (let (prefix, operationIDEscaped) = path_Split (path_Dir (RawPath (srURL request)))
     in case PathUnescape operationIDEscaped of
          None \<Rightarrow> (writeFailure h writer (newBadRequestError ''failed to parse URL path''), None)
        | Some operationID \<Rightarrow>
     (case PathUnescape (path_Base prefix) of
          None \<Rightarrow> (writeFailure h writer (newBadRequestError ''failed to parse URL path''), None)
        | Some operation \<Rightarrow>
     (let waitStr = waitStrOf request;
          parsed = (if waitStr \<noteq> [] then ParseDuration h waitStr else Some 0)
      in case parsed of
           None \<Rightarrow> (writeFailure h writer (newBadRequestError ''invalid wait query parameter''),
                     None)
         | Some waitDuration \<Rightarrow>
      (let handlerRequest = \<lparr>gr_Operation = operation, gr_OperationID = operationID,
                              gr_Wait = waitDuration\<rparr>
       in (respondGetResult h writer (waitStr \<noteq> []) handlerRequest, Some handlerRequest)))))"

text \<open>\<^verbatim>\<open>getOperationInfo\<close>, with the same two results.\<close>

definition getOperationInfo ::
  "'a handler_deps_scheme \<Rightarrow> ResponseWriter \<Rightarrow> ServerRequest \<Rightarrow>
   (panic + ResponseWriter) \<times> GetOperationInfoRequest option" where
  "getOperationInfo h writer request =
    (let (prefix, operationIDEscaped) = path_Split (RawPath (srURL request))
     in case PathUnescape operationIDEscaped of
          None \<Rightarrow> (writeFailure h writer (newBadRequestError ''failed to parse URL path''), None)
        | Some operationID \<Rightarrow>
     (case PathUnescape (path_Base prefix) of
          None \<Rightarrow> (writeFailure h writer (newBadRequestError ''failed to parse URL path''), None)
        | Some operation \<Rightarrow>
     (let handlerRequest = \<lparr>gi_Operation = operation, gi_OperationID = operationID\<rparr>
      in ((case GetOperationInfo h handlerRequest of
             (info, maybeErr) \<Rightarrow>
               (case maybeErr of
                  Some err \<Rightarrow> writeFailure h writer err
                | None \<Rightarrow>
                    (case Marshaler h info of
                       Inl err \<Rightarrow>
                         writeFailure h writer (Wrapped ''failed to marshal operation info'' err)
                     | Inr bytes \<Rightarrow>
                         Inr (Write (SetHeader writer headerContentType contentTypeJSON) bytes)))),
          Some handlerRequest))))"

section \<open>The client handle (handle.go)\<close>

definition getResultContextPadding :: Duration where
  "getResultContextPadding = 5 * 1000000000"

record HTTPResponse =
  StatusCode :: int
  respHeader :: Header
  respBody :: Stream

record Content =
  ctHeader :: Header
  ctData :: string

text \<open>
  The zero value of the handle's type parameter \<^verbatim>\<open>T\<close> and what \<^verbatim>\<open>GetResult\<close> returns
  in its place: a \<^verbatim>\<open>*LazyValue\<close> (nil, or pointing to a value) or a value of another
  type.
\<close>

datatype ('v, 's) T_value = NilLazyValue | LazyValuePtr "'s LazyValue" | Decoded 'v

fun isLazyValuePtr :: "('v, 's) T_value \<Rightarrow> bool" where
  \<comment> \<open>\<^verbatim>\<open>_, ok := any(result).(*LazyValue)\<close>\<close>
  "isLazyValuePtr (Decoded v) = False"
| "isLazyValuePtr t = True"

text \<open>
  The collaborators of the handle: the reserved status codes, the client's serializer
  and its \<^verbatim>\<open>Deserialize\<close> (it is given the variable to fill and returns what it left
  there), and the helpers that live outside the source files.
\<close>

record ('v, 's) client_deps =
  cl_codes :: protocol_codes
  optionsSerializerOf :: 's
  Deserialize :: "'s \<Rightarrow> Content \<Rightarrow> 'v \<Rightarrow> 'v \<times> go_error option"
  getUnsuccessfulStateFromHeader :: "HTTPResponse \<Rightarrow> string \<Rightarrow> go_error + OperationState"
  failureFromResponse :: "HTTPResponse \<Rightarrow> string \<Rightarrow> go_error + Failure"
  bestEffortHandlerErrorFromResponse :: "HTTPResponse \<Rightarrow> string \<Rightarrow> go_error"
  contentHeaderOf :: "Header \<Rightarrow> Header"

definition bodyReadError :: go_error where
  "bodyReadError = OtherError ''read error''"

text \<open>
  Modelled from the spec: \<^verbatim>\<open>readAndReplaceBody\<close> is declared outside the source files;
  section 5 says that the non-200 path reads the body once and puts a buffer in its
  place.
\<close>

definition readAndReplaceBody :: "HTTPResponse \<Rightarrow> go_error + string" where
  "readAndReplaceBody response =
    (case ReadAll (respBody response) of None \<Rightarrow> Inl bodyReadError | Some b \<Rightarrow> Inr b)"

text \<open>
  \<^verbatim>\<open>sendGetOperationRequest\<close>; its argument is what \<^verbatim>\<open>HTTPCaller\<close> returned for the
  request.
\<close>

definition sendGetOperationRequest ::
  "('v, 's) client_deps \<Rightarrow> go_error + HTTPResponse \<Rightarrow> go_error + HTTPResponse" where
  "sendGetOperationRequest deps called =
    (case called of
       Inl err \<Rightarrow> Inl err
     | Inr response \<Rightarrow>
         if StatusCode response = StatusOK then Inr response
         else (case readAndReplaceBody response of
                 Inl err \<Rightarrow> Inl err
               | Inr body \<Rightarrow>
                   if StatusCode response = StatusRequestTimeout then Inl errOperationWaitTimeout
                   else if StatusCode response = statusOperationRunning (cl_codes deps)
                   then Inl ErrOperationStillRunning
                   else if StatusCode response = statusOperationFailed (cl_codes deps) then
                     (case getUnsuccessfulStateFromHeader deps response body of
                        Inl err \<Rightarrow> Inl err
                      | Inr state \<Rightarrow>
                          (case failureFromResponse deps response body of
                             Inl err \<Rightarrow> Inl err
                           | Inr failure \<Rightarrow> Inl (UnsuccessfulOperationError state failure)))
                   else Inl (bestEffortHandlerErrorFromResponse deps response body)))"

text \<open>
  Modelled from the spec: \<^verbatim>\<open>LazyValue.Consume\<close> is declared outside the source files;
  section 4.B says that it drains the stream, calls \<^verbatim>\<open>Deserialize\<close> with the accumulated
  content, closes the stream and returns the error of either step. The model returns
  the variable as \<^verbatim>\<open>Consume\<close> leaves it, the error, and the stream as it is left.
\<close>

definition Consume ::
  "('v, 's) client_deps \<Rightarrow> 's LazyValue \<Rightarrow> 'v \<Rightarrow> 'v \<times> go_error option \<times> Stream" where
  "Consume deps l v =
    (let rc = ReadCloser (Reader l)
     in case ReadAll rc of
          None \<Rightarrow> (v, Some bodyReadError, rc\<lparr>closed := True\<rparr>)
        | Some data \<Rightarrow>
            (case Deserialize deps (serializer l) \<lparr>ctHeader = rdHeader (Reader l), ctData = data\<rparr> v of
               (v', err) \<Rightarrow> (v', err, rc\<lparr>drained := True, closed := True\<rparr>)))"

text \<open>
  What \<^verbatim>\<open>GetResult\<close> returns: the value of type \<^verbatim>\<open>T\<close>, the error, and (for a 200
  response) the response body as the call leaves it.
\<close>

record ('v, 's) GetResult_return =
  ret_result :: "('v, 's) T_value"
  ret_err :: "go_error option"
  ret_body :: "Stream option"

text \<open>
  Lines 108 to 119: the routing of a 200 response by the type \<^verbatim>\<open>T\<close>. In
  \<^verbatim>\<open>return result, s.Consume(&result)\<close> the variable is read after the call has filled
  it, as the Go compiler orders it.
\<close>

definition routeResult ::
  "('v, 's) client_deps \<Rightarrow> ('v, 's) T_value \<Rightarrow> HTTPResponse \<Rightarrow> ('v, 's) GetResult_return" where
  "routeResult deps result response =
    (let s = \<lparr>serializer = optionsSerializerOf deps,
              Reader = \<lparr>ReadCloser = respBody response,
                        rdHeader = contentHeaderOf deps (respHeader response)\<rparr>\<rparr>
     in case result of
          Decoded v \<Rightarrow>
            (case Consume deps s v of
               (v', err, body') \<Rightarrow> \<lparr>ret_result = Decoded v', ret_err = err, ret_body = Some body'\<rparr>)
        | _ \<Rightarrow> \<lparr>ret_result = LazyValuePtr s, ret_err = None, ret_body = Some (respBody response)\<rparr>)"

text \<open>
  Durations are \<^verbatim>\<open>int64\<close> nanoseconds. \<^verbatim>\<open>min\<close> is the signed minimum,
  \<^verbatim>\<open>Duration.Milliseconds\<close> divides by a million, truncating towards zero, and \<^verbatim>\<open>%d\<close>
  writes the decimal numeral.
\<close>

definition smin :: "Duration \<Rightarrow> Duration \<Rightarrow> Duration" where
  "smin a b = (if a \<le>s b then a else b)"

definition Milliseconds :: "Duration \<Rightarrow> int" where
  "Milliseconds d = sint d sdiv 1000000"

fun showNat :: "nat \<Rightarrow> string" where
  "showNat n = (if n < 10 then [char_of (48 + n)] else showNat (n div 10) @ [char_of (48 + n mod 10)])"

definition showInt :: "int \<Rightarrow> string" where
  "showInt i = (if i < 0 then CHR ''-'' # showNat (nat (- i)) else showNat (nat i))"

text \<open>
  The clock and the transport, as one step per iteration of the loop: what
  \<^verbatim>\<open>time.Until(deadline)\<close> returns if the iteration reads it, what \<^verbatim>\<open>HTTPCaller\<close>
  returns for the request, and the nanoseconds that \<^verbatim>\<open>time.Since(startTime)\<close> finds
  elapsed on the monotonic clock if the iteration reads it (\<^verbatim>\<open>Since\<close> returns at most
  the largest duration).
\<close>

record step =
  untilDeadline :: Duration
  called :: "go_error + HTTPResponse"
  sinceStart :: nat

definition sinceDuration :: "nat \<Rightarrow> Duration" where
  "sinceDuration n = word_of_nat (min n (2 ^ 63 - 1))"

record Context =
  hasDeadline :: bool

record GetOperationResultOptions =
  opt_Wait :: Duration

text \<open>
  One entry per request handed to \<^verbatim>\<open>HTTPCaller\<close>: the value of \<^verbatim>\<open>wait\<close> at the head of
  the iteration, the reading of \<^verbatim>\<open>time.Until(deadline)\<close> of the iteration, the value of
  \<^verbatim>\<open>wait\<close> when the request is sent, and the query of the request.
\<close>

record sent_request =
  head_wait :: Duration
  until_read :: Duration
  sent_wait :: Duration
  sent_query :: Values

text \<open>Lines 82 to 96: the new value of \<^verbatim>\<open>wait\<close> and the query of the request.\<close>

definition prepareRequest :: "Context \<Rightarrow> Duration \<Rightarrow> Values \<Rightarrow> step \<Rightarrow> Duration \<times> Values" where
  "prepareRequest ctx wait query s =
    (if 0 <s wait then
       (let wait' = (if hasDeadline ctx then smin wait (untilDeadline s + getResultContextPadding)
                     else wait)
        in (wait', Values_Set query queryWait (showInt (Milliseconds wait') @ ''ms'')))
     else (wait, []))"

text \<open>
  The loop of \<^verbatim>\<open>GetResult\<close> (lines 81 to 120) over the steps of the environment. It
  returns the requests sent and what the call returns; \<open>None\<close> when the steps given
  run out before the call returns.
\<close>

fun GetResult_loop ::
  "('v, 's) client_deps \<Rightarrow> ('v, 's) T_value \<Rightarrow> Context \<Rightarrow> GetOperationResultOptions \<Rightarrow>
   Duration \<Rightarrow> Values \<Rightarrow> step list \<Rightarrow> sent_request list \<times> ('v, 's) GetResult_return option" where
  "GetResult_loop deps result ctx options wait query [] = ([], None)"
| "GetResult_loop deps result ctx options wait query (s # script) =
    (case prepareRequest ctx wait query s of
       (wait', query') \<Rightarrow>
         (let sent = \<lparr>head_wait = wait, until_read = untilDeadline s, sent_wait = wait',
                      sent_query = query'\<rparr>
          in case sendGetOperationRequest deps (called s) of
               Inl err \<Rightarrow>
                 if 0 <s wait' \<and> errors_Is err errOperationWaitTimeout
                 then (case GetResult_loop deps result ctx options
                              (opt_Wait options - sinceDuration (sinceStart s)) query' script of
                         (trace, r) \<Rightarrow> (sent # trace, r))
                 else ([sent], Some \<lparr>ret_result = result, ret_err = Some err, ret_body = None\<rparr>)
             | Inr response \<Rightarrow> ([sent], Some (routeResult deps result response))))"

text \<open>
  \<^verbatim>\<open>GetResult\<close>: the request is what \<^verbatim>\<open>http.NewRequestWithContext\<close> returned for the
  URL of line 70 (an error, or the request's URL).
\<close>

definition GetResult ::
  "('v, 's) client_deps \<Rightarrow> ('v, 's) T_value \<Rightarrow> Context \<Rightarrow> GetOperationResultOptions \<Rightarrow>
   go_error + URL \<Rightarrow> step list \<Rightarrow> sent_request list \<times> ('v, 's) GetResult_return option" where
  "GetResult deps result ctx options request script =
    (case request of
       Inl err \<Rightarrow> ([], Some \<lparr>ret_result = result, ret_err = Some err, ret_body = None\<rparr>)
     | Inr url \<Rightarrow> GetResult_loop deps result ctx options (opt_Wait options) (RawQuery url) script)"

text \<open>The URLs of lines 25 and 70.\<close>

definition infoURL :: "URL \<Rightarrow> string \<Rightarrow> string \<Rightarrow> string \<Rightarrow> URL" where
  "infoURL serviceBaseURL service operation ident =
    JoinPath serviceBaseURL [PathEscape service, PathEscape operation, PathEscape ident]"

definition resultURL :: "URL \<Rightarrow> string \<Rightarrow> string \<Rightarrow> string \<Rightarrow> URL" where
  "resultURL serviceBaseURL service operation ident =
    JoinPath serviceBaseURL [PathEscape service, PathEscape operation, PathEscape ident, ''result'']"

text \<open>
  The entry of the trace for an iteration, and the test of line 100 that sends the
  loop into another iteration.
\<close>

definition sentRequest :: "Context \<Rightarrow> Duration \<Rightarrow> Values \<Rightarrow> step \<Rightarrow> sent_request" where
  "sentRequest ctx wait query s =
    \<lparr>head_wait = wait, until_read = untilDeadline s,
     sent_wait = fst (prepareRequest ctx wait query s),
     sent_query = snd (prepareRequest ctx wait query s)\<rparr>"

definition retries :: "('v, 's) client_deps \<Rightarrow> Context \<Rightarrow> Duration \<Rightarrow> Values \<Rightarrow> step \<Rightarrow> bool" where
  "retries deps ctx wait query s =
    (case sendGetOperationRequest deps (called s) of
       Inl err \<Rightarrow> 0 <s fst (prepareRequest ctx wait query s) \<and> errors_Is err errOperationWaitTimeout
     | Inr response \<Rightarrow> False)"

text \<open>What the call returns when an iteration is its last one (lines 106 to 119).\<close>

definition returned ::
  "('v, 's) client_deps \<Rightarrow> ('v, 's) T_value \<Rightarrow> step \<Rightarrow> ('v, 's) GetResult_return" where
  "returned deps result s =
    (case sendGetOperationRequest deps (called s) of
       Inl err \<Rightarrow> \<lparr>ret_result = result, ret_err = Some err, ret_body = None\<rparr>
     | Inr response \<Rightarrow> routeResult deps result response)"

section \<open>Concrete collaborators\<close>

text \<open>
  Instances of the parameters, to evaluate the model on concrete requests. The two
  reserved status codes are given the values 412 and 424; the marshaller writes a
  failure as its message between braces; the link encoder stores the links under the
  link header.
\<close>

definition example_codes :: protocol_codes where
  "example_codes = \<lparr>statusOperationRunning = 412, statusOperationFailed = 424\<rparr>"

definition example_marshal :: "Failure \<Rightarrow> string option" where
  "example_marshal f = (if Details f = ''invalid'' then None else Some (''{'' @ Message f @ ''}''))"

definition example_server_deps :: server_deps where
  "example_server_deps = \<lparr>codes = example_codes, jsonMarshalFailure = example_marshal\<rparr>"

definition example_completion_handler_deps :: "(string, unit) completion_handler_deps" where
  "example_completion_handler_deps =
    \<lparr>codes = example_codes, jsonMarshalFailure = example_marshal,
     CompleteOperation = (\<lambda>c. None), optionsSerializer = (),
     ParseTime = (\<lambda>s. if s = ''Mon, 02 Jan 2006 15:04:05 GMT'' then Some 1 else None),
     getLinksFromHeader = (\<lambda>h. case h headerLink of None \<Rightarrow> Some [] | Some ls \<Rightarrow> Some ls),
     isMediaTypeJSON = (\<lambda>s. s = contentTypeJSON),
     jsonUnmarshalFailure = (\<lambda>b. if b = [] then None else Some (messageFailure b)),
     quoted = (\<lambda>s. CHR 0x22 # s @ [CHR 0x22]),
     prefixStrippedHTTPHeaderToNexusHeader = (\<lambda>h. h)\<rparr>"

definition completionRequestWith :: "(string \<times> string) list \<Rightarrow> string \<Rightarrow> ServerRequest" where
  "completionRequestWith hs b =
    \<lparr>srHeader = map_of (map (\<lambda>(k, v). (k, [v])) hs), srBody = newStream b, srURL = emptyURL\<rparr>"

definition example_handler_deps :: handler_deps where
  "example_handler_deps =
    \<lparr>codes = example_codes, jsonMarshalFailure = example_marshal,
     GetOperationResult = (\<lambda>derived r. (None, Some ErrOperationStillRunning)),
     GetOperationInfo = (\<lambda>r. (Some \<lparr>oi_ID = gi_OperationID r, oi_State = ''running''\<rparr>, None)),
     Marshaler = (\<lambda>i. Inr (case i of None \<Rightarrow> ''null'' | Some x \<Rightarrow> oi_ID x)),
     ParseDuration = (\<lambda>s. if s = ''100ms'' then Some 100000000 else None),
     requestCtxDone = False, timeoutFired = True\<rparr>"

definition getRequest :: "URL \<Rightarrow> ServerRequest" where
  "getRequest u = \<lparr>srHeader = (\<lambda>k. None), srBody = newStream [], srURL = u\<rparr>"

definition timeoutHandlerError_deps :: handler_deps where
  "timeoutHandlerError_deps =
    example_handler_deps\<lparr>GetOperationResult := (\<lambda>derived r. (None, Some (HandlerError 408 None)))\<rparr>"

definition resultRequest :: "Values \<Rightarrow> ServerRequest" where
  "resultRequest q = getRequest \<lparr>Path = ''/fo/o/bar/result'', RawPath = ''/fo%2Fo/bar/result'', RawQuery = q\<rparr>"

definition example_client_deps :: "(string, unit) client_deps" where
  "example_client_deps =
    \<lparr>cl_codes = example_codes, optionsSerializerOf = (),
     Deserialize = (\<lambda>s c v. if ctData c = [] then (v, Some (OtherError ''no content''))
                              else (ctData c, None)),
     getUnsuccessfulStateFromHeader = (\<lambda>r b. Inr (Header_Get (respHeader r) headerOperationState)),
     failureFromResponse = (\<lambda>r b. Inr (messageFailure b)),
     bestEffortHandlerErrorFromResponse = (\<lambda>r b. HandlerError (StatusCode r) (Some (messageFailure b))),
     contentHeaderOf = (\<lambda>h. h)\<rparr>"

text \<open>
  A step in which the transport answers with the given status and body, the deadline
  is the given duration away and the given number of nanoseconds have passed since the
  call began.
\<close>

definition answer :: "int \<Rightarrow> string \<Rightarrow> Duration \<Rightarrow> nat \<Rightarrow> step" where
  "answer code body until since =
    \<lparr>untilDeadline = until,
     called = Inr \<lparr>StatusCode = code, respHeader = (\<lambda>k. None), respBody = newStream body\<rparr>,
     sinceStart = since\<rparr>"

definition tenSeconds :: GetOperationResultOptions where
  "tenSeconds = \<lparr>opt_Wait = 10000000000\<rparr>"

definition noDeadline :: Context where
  "noDeadline = \<lparr>hasDeadline = False\<rparr>"

definition withDeadline :: Context where
  "withDeadline = \<lparr>hasDeadline = True\<rparr>"

definition example_completion_deps :: "string completion_deps" where
  "example_completion_deps =
    \<lparr>addLinksToHTTPHeader = (\<lambda>ls h. (if ls = [] then h else h(headerLink \<mapsto> ls), None)),
     formatHTTPTime = (\<lambda>t. ''Mon, 02 Jan 2006 15:04:05 GMT''),
     marshalFailurePtr = (\<lambda>f. Inr (case f of None \<Rightarrow> ''null'' | Some x \<Rightarrow> Message x))\<rparr>"

definition example_successful :: "string OperationCompletionSuccessful" where
  "example_successful =
    \<lparr>cs_Header = Some ((\<lambda>k. None)(HeaderOperationID \<mapsto> [''from-header''])),
     cs_Body = newStream ''42'', cs_OperationID = ''from-struct'', cs_StartTime = 7,
     cs_StartLinks = [''link-1'']\<rparr>"

definition example_unsuccessful :: "string OperationCompletionUnsuccessful" where
  "example_unsuccessful =
    \<lparr>cu_Header = Some ((\<lambda>k. None)(headerLink \<mapsto> [''link-0''], headerOperationState \<mapsto> [''running''])),
     cu_State = OperationStateFailed, cu_OperationID = ''from-struct'', cu_StartTime = 0,
     cu_StartLinks = [''link-1''], cu_Failure = Some (messageFailure ''boom'')\<rparr>"

text \<open>
  Two caller-supplied header maps: one that holds the operation id as the second value
  under the canonical key, after an empty first value; and one that holds the operation
  id and an operation state under lower-case spellings of the keys.
\<close>

definition later_value_successful :: "string OperationCompletionSuccessful" where
  "later_value_successful =
    \<lparr>cs_Header = Some ((\<lambda>k. None)(''Nexus-Operation-Id'' \<mapsto> [[], ''from-header''])),
     cs_Body = newStream ''42'', cs_OperationID = ''from-struct'', cs_StartTime = 0,
     cs_StartLinks = []\<rparr>"

definition other_spelling_successful :: "string OperationCompletionSuccessful" where
  "other_spelling_successful =
    \<lparr>cs_Header = Some ((\<lambda>k. None)(''nexus-operation-id'' \<mapsto> [''from-header''],
                                     ''nexus-operation-state'' \<mapsto> [''failed''])),
     cs_Body = newStream ''42'', cs_OperationID = ''from-struct'', cs_StartTime = 0,
     cs_StartLinks = []\<rparr>"

definition emptyRequest :: HTTPRequest where
  "emptyRequest = \<lparr>reqHeader = (\<lambda>k. None), reqBody = None\<rparr>"

section \<open>Properties\<close>

subsection \<open>Header keys\<close>

lemma canonical_header_names:
  "CanonicalMIMEHeaderKey headerOperationState = headerOperationState"
  "CanonicalMIMEHeaderKey HeaderOperationID = HeaderOperationID"
  "CanonicalMIMEHeaderKey headerOperationStartTime = headerOperationStartTime"
  "CanonicalMIMEHeaderKey headerLink = headerLink"
  "CanonicalMIMEHeaderKey headerContentType = headerContentType"
  by code_simp+

lemma canonical_examples:
  "CanonicalMIMEHeaderKey ''accept-encoding'' = ''Accept-Encoding''"
  "CanonicalMIMEHeaderKey ''uSER-aGENT'' = ''User-Agent''"
  "CanonicalMIMEHeaderKey ''foo-bar_baz'' = ''Foo-Bar_baz''"
  "CanonicalMIMEHeaderKey ''foo bar'' = ''foo bar''"
  "CanonicalMIMEHeaderKey ''nexus-operation-state'' = ''Nexus-Operation-State''"
  "CanonicalMIMEHeaderKey [] = []"
  by code_simp+

lemma header_names_distinct:
  "headerOperationState \<noteq> headerLink" "HeaderOperationID \<noteq> headerLink"
  "headerOperationStartTime \<noteq> headerLink" "headerContentType \<noteq> headerLink"
  "headerOperationState \<noteq> HeaderOperationID" "headerOperationState \<noteq> headerOperationStartTime"
  "headerOperationState \<noteq> headerContentType" "HeaderOperationID \<noteq> headerOperationStartTime"
  "HeaderOperationID \<noteq> headerContentType" "headerOperationStartTime \<noteq> headerContentType"
  by (simp_all add: headerOperationState_def HeaderOperationID_def headerOperationStartTime_def
      headerLink_def headerContentType_def)

lemma Header_Set_name:
  "CanonicalMIMEHeaderKey k = k \<Longrightarrow> Header_Set h k v = h(k \<mapsto> [v])"
  by (simp add: Header_Set_def)

lemma Header_Get_name:
  "CanonicalMIMEHeaderKey k = k \<Longrightarrow>
   Header_Get h k = (case h k of None \<Rightarrow> [] | Some [] \<Rightarrow> [] | Some (v # vs) \<Rightarrow> v)"
  by (simp add: Header_Get_def)

lemmas Header_Set_names = canonical_header_names[THEN Header_Set_name]

lemmas Header_Get_names = canonical_header_names[THEN Header_Get_name]

lemmas canonical_header_literals =
  canonical_header_names[unfolded headerOperationState_def HeaderOperationID_def
    headerOperationStartTime_def headerLink_def headerContentType_def]

subsection \<open>The response writer\<close>

text \<open>The model of the writer on calls whose outcome the library documents.\<close>

lemma response_writer_examples:
  "WriteHeader newResponseWriter 99 = Inl (InvalidWriteHeaderCode 99)"
  "WriteHeader newResponseWriter 1000 = Inl (InvalidWriteHeaderCode 1000)"
  "WriteHeader (newResponseWriter\<lparr>rwStatus := Some 200\<rparr>) 0 = Inr (newResponseWriter\<lparr>rwStatus := Some 200\<rparr>)"
  "WriteHeader newResponseWriter 103 = Inr (newResponseWriter\<lparr>rwInformational := [103]\<rparr>)"
  "WriteHeader newResponseWriter 101 = Inr (newResponseWriter\<lparr>rwStatus := Some 101\<rparr>)"
  "Write newResponseWriter ''hi'' = newResponseWriter\<lparr>rwStatus := Some 200, rwBody := ''hi''\<rparr>"
  "Write newResponseWriter [] = newResponseWriter\<lparr>rwStatus := Some 200\<rparr>"
  "Write (newResponseWriter\<lparr>rwStatus := Some 304\<rparr>) ''hi'' = newResponseWriter\<lparr>rwStatus := Some 304\<rparr>"
  "Write (newResponseWriter\<lparr>rwStatus := Some 404\<rparr>) ''hi''
     = newResponseWriter\<lparr>rwStatus := Some 404, rwBody := ''hi''\<rparr>"
  by (simp_all add: WriteHeader_def Write_def Let_def newResponseWriter_def responseStatus_def
      bodyAllowedForStatus_def StatusSwitchingProtocols_def StatusOK_def StatusNoContent_def
      StatusNotModified_def)

lemma Inr_status_iff:
  "(\<exists>w. r = Inr w \<and> responseStatus w = c) \<longleftrightarrow> map_sum id responseStatus r = Inr c"
  by (cases r) auto

lemma WriteHeader_status:
  assumes "rwStatus w = None"
  shows "map_sum id responseStatus (WriteHeader w code) = statusSent code"
  using assms by (simp add: WriteHeader_def statusSent_def responseStatus_def)

lemma Write_status:
  "responseStatus (Write w b) = responseStatus w"
  by (simp add: Write_def responseStatus_def Let_def)

lemma WriteHeader_then_Write_status:
  assumes "rwStatus w = None"
  shows "map_sum id responseStatus (WriteHeader_then_Write w code b) = statusSent code"
  using WriteHeader_status[OF assms, of code]
  by (cases "WriteHeader w code") (simp_all add: WriteHeader_then_Write_def Write_status)

lemma statusSent_final:
  "200 \<le> code \<Longrightarrow> code \<le> 999 \<Longrightarrow> statusSent code = Inr code"
  by (simp add: statusSent_def)

lemma statusSent_eq_iff:
  assumes "200 \<le> c" "c \<le> 999" "c \<noteq> StatusOK"
  shows "statusSent code = Inr c \<longleftrightarrow> code = c"
  using assms by (auto simp add: statusSent_def)

lemma WriteHeader_final:
  assumes "rwStatus w = None" "200 \<le> code" "code \<le> 999"
  shows "WriteHeader w code = Inr (w\<lparr>rwStatus := Some code\<rparr>)"
  using assms by (simp add: WriteHeader_def)

lemma WriteHeader_then_Write_final:
  assumes "rwStatus w = None" "200 \<le> code" "code \<le> 999"
  shows "WriteHeader_then_Write w code b =
    Inr (w\<lparr>rwStatus := Some code,
           rwBody := (if bodyAllowedForStatus code then rwBody w @ b else rwBody w)\<rparr>)"
  using assms
  by (simp add: WriteHeader_then_Write_def WriteHeader_final Write_def Let_def responseStatus_def)

subsection \<open>Rendering failures\<close>

lemma renderFailure_status:
  assumes "rwStatus writer = None"
  shows "map_sum id responseStatus (renderFailure deps writer statusCode failure) =
    (case failure of
       None \<Rightarrow> statusSent statusCode
     | Some f \<Rightarrow>
        (case jsonMarshalFailure deps f of
           None \<Rightarrow> Inr StatusInternalServerError
         | Some b \<Rightarrow> statusSent statusCode))"
proof -
  have "rwStatus (SetHeader writer k v) = None" for k v
    using assms by (simp add: SetHeader_def)
  then show ?thesis
    using assms
    by (simp add: renderFailure_def WriteHeader_status WriteHeader_then_Write_status statusSent_final
        StatusInternalServerError_def split: option.splits)
qed

lemma writeFailure_status:
  assumes "rwStatus writer = None"
  shows "map_sum id responseStatus (writeFailure deps writer err) =
    (case as_UnsuccessfulOperationError err of
       Some (st, f) \<Rightarrow>
         if st = OperationStateFailed \<or> st = OperationStateCanceled
         then (case jsonMarshalFailure deps f of
                 None \<Rightarrow> Inr StatusInternalServerError
               | Some b \<Rightarrow> statusSent (statusOperationFailed (codes deps)))
         else Inr StatusInternalServerError
     | None \<Rightarrow>
        (case as_HandlerError err of
           Some (code, None) \<Rightarrow> statusSent code
         | Some (code, Some f) \<Rightarrow>
             (case jsonMarshalFailure deps f of
                None \<Rightarrow> Inr StatusInternalServerError
              | Some b \<Rightarrow> statusSent code)
         | None \<Rightarrow> Inr StatusInternalServerError))"
proof -
  have set: "rwStatus (SetHeader writer k v) = None" for k v
    using assms by (simp add: SetHeader_def)
  have direct: "map_sum id responseStatus (WriteHeader writer StatusInternalServerError)
                = Inr StatusInternalServerError"
    using assms by (simp add: WriteHeader_status statusSent_final StatusInternalServerError_def)
  have internal: "statusSent StatusInternalServerError = Inr StatusInternalServerError"
    by (simp add: statusSent_final StatusInternalServerError_def)
  show ?thesis
    using assms
    by (simp add: writeFailure_def renderFailure_status set direct internal
        split: option.splits prod.splits)
qed

lemma bad_request_status:
  assumes "rwStatus writer = None" "\<forall>m. jsonMarshalFailure deps (messageFailure m) \<noteq> None"
  shows "map_sum id responseStatus (writeFailure deps writer (HandlerErrorf_BadRequest m))
         = Inr StatusBadRequest"
proof -
  obtain b where "jsonMarshalFailure deps (messageFailure m) = Some b"
    using assms(2) by auto
  then show ?thesis
    using assms(1)
    by (simp add: writeFailure_status HandlerErrorf_BadRequest_def statusSent_final
        StatusBadRequest_def)
qed

lemma example_marshal_message: "\<forall>m. example_marshal (messageFailure m) \<noteq> None"
  by (simp add: example_marshal_def messageFailure_def)

lemma renderFailure_final:
  assumes "rwStatus writer = None" "200 \<le> statusCode" "statusCode \<le> 999"
  shows "renderFailure deps writer statusCode failure =
    (case failure of
       None \<Rightarrow> Inr (writer\<lparr>rwStatus := Some statusCode\<rparr>)
     | Some f \<Rightarrow>
        (case jsonMarshalFailure deps f of
           None \<Rightarrow> Inr (writer\<lparr>rwStatus := Some StatusInternalServerError\<rparr>)
         | Some b \<Rightarrow>
             Inr (writer\<lparr>rwHeader := (rwHeader writer)(headerContentType \<mapsto> [contentTypeJSON]),
                        rwStatus := Some statusCode,
                        rwBody := (if bodyAllowedForStatus statusCode then rwBody writer @ b
                                   else rwBody writer)\<rparr>)))"
  using assms
  by (simp add: renderFailure_def WriteHeader_then_Write_final WriteHeader_final SetHeader_def
      Header_Set_names StatusInternalServerError_def split: option.splits)

lemma renderFailure_marshal_error:
  assumes "rwStatus writer = None" "jsonMarshalFailure deps f = None"
  shows "renderFailure deps writer statusCode (Some f) =
         Inr (writer\<lparr>rwStatus := Some StatusInternalServerError\<rparr>)"
  using assms by (simp add: renderFailure_def WriteHeader_final StatusInternalServerError_def)

text \<open>
  A \<^verbatim>\<open>HandlerError\<close> whose status code was left at zero, or is any other code outside
  100..999, makes \<^verbatim>\<open>WriteHeader\<close> panic: nothing is sent. A code from 100 to 199 is sent
  as an informational response, and the response that follows has the status 200.
\<close>

lemma writeFailure_invalid_status_code:
  "writeFailure example_server_deps newResponseWriter (HandlerError 0 None)
     = Inl (InvalidWriteHeaderCode 0)"
  "writeFailure example_server_deps newResponseWriter (HandlerError 1000 (Some (messageFailure ''gone'')))
     = Inl (InvalidWriteHeaderCode 1000)"
  "writeFailure example_server_deps newResponseWriter (HandlerError 102 (Some (messageFailure ''gone'')))
     = Inr \<lparr>rwHeader = (\<lambda>k. None)(headerContentType \<mapsto> [contentTypeJSON]),
            rwInformational = [102], rwStatus = Some 200, rwBody = ''{gone}''\<rparr>"
  by (simp_all add: writeFailure_def renderFailure_def WriteHeader_then_Write_def WriteHeader_def
      Write_def Let_def SetHeader_def Header_Set_names newResponseWriter_def example_server_deps_def
      example_marshal_def messageFailure_def StatusSwitchingProtocols_def StatusOK_def
      bodyAllowedForStatus_def responseStatus_def StatusNoContent_def StatusNotModified_def)

text \<open>
  Claim C5, as stated, at two errors. An error that carries the operation state
  \<^verbatim>\<open>running\<close> is answered with a bare 500, with no operation-state header and no body,
  and not with the reserved operation-failed status. An error that carries the status
  code 204 and a failure is answered with 204 and the JSON content type, and the JSON
  of the failure is not part of the response.
\<close>

theorem writeFailure_unexpected_state:
  "as_UnsuccessfulOperationError (UnsuccessfulOperationError ''running'' (messageFailure ''boom''))
     = Some (''running'', messageFailure ''boom'')
   \<and> writeFailure example_server_deps newResponseWriter
       (UnsuccessfulOperationError ''running'' (messageFailure ''boom''))
     = Inr (newResponseWriter\<lparr>rwStatus := Some 500\<rparr>)
   \<and> statusOperationFailed (codes example_server_deps) \<noteq> 500
   \<and> Header_Values (rwHeader newResponseWriter) headerOperationState = None
   \<and> rwBody newResponseWriter = []
   \<and> jsonMarshalFailure example_server_deps (messageFailure ''gone'') = Some ''{gone}''
   \<and> writeFailure example_server_deps newResponseWriter (HandlerError 204 (Some (messageFailure ''gone'')))
     = Inr ((SetHeader newResponseWriter headerContentType contentTypeJSON)\<lparr>rwStatus := Some 204\<rparr>)
   \<and> rwBody (SetHeader newResponseWriter headerContentType contentTypeJSON) = []"
  by (simp add: writeFailure_def renderFailure_def WriteHeader_then_Write_def WriteHeader_def
      Write_def Let_def SetHeader_def Header_Values_def newResponseWriter_def example_server_deps_def
      example_codes_def example_marshal_def messageFailure_def OperationStateFailed_def
      OperationStateCanceled_def StatusInternalServerError_def StatusSwitchingProtocols_def
      bodyAllowedForStatus_def responseStatus_def StatusNoContent_def StatusNotModified_def)

text \<open>
  Claim C5, amended. On a writer whose status is still open and whose header map holds
  no \<^verbatim>\<open>Content-Length\<close>, \<^verbatim>\<open>writeFailure\<close> dispatches on what the error carries.

  An error carrying the operation state \<^verbatim>\<open>failed\<close> or \<^verbatim>\<open>canceled\<close> is rendered, when
  the reserved operation-failed code is a status from 200 to 999, with that status, the
  operation-state header, the JSON content type and the JSON of its failure as the
  body; with any other state the response is a bare 500.

  Otherwise an error carrying a status code from 200 to 999 is rendered with that
  status, and, when it has a failure, with the JSON content type and the JSON of the
  failure as the body.

  Any other error is rendered as 500 with the JSON content type and the JSON of the
  failure whose message is \<^verbatim>\<open>internal server error\<close>, whatever the error says.

  In each case the body is left out when the status allows none (204 and 304), and
  when \<^verbatim>\<open>json.Marshal\<close> fails on the failure the response is a 500 with no body and no
  content type (the operation-state header, if one was set, stays).
\<close>

theorem writeFailure_dispatch:
  assumes "rwStatus writer = None" and "rwHeader writer ''Content-Length'' = None"
  shows
   "(as_UnsuccessfulOperationError err = Some (st, f) \<and>
       (st = OperationStateFailed \<or> st = OperationStateCanceled) \<and> jsonMarshalFailure deps f = Some b \<and>
       200 \<le> statusOperationFailed (codes deps) \<and> statusOperationFailed (codes deps) \<le> 999
     \<longrightarrow> writeFailure deps writer err =
           Inr (writer\<lparr>rwHeader := (rwHeader writer)(headerOperationState \<mapsto> [st],
                                                      headerContentType \<mapsto> [contentTypeJSON]),
                      rwStatus := Some (statusOperationFailed (codes deps)),
                      rwBody := (if bodyAllowedForStatus (statusOperationFailed (codes deps))
                                 then rwBody writer @ b else rwBody writer)\<rparr>))
  \<and> (as_UnsuccessfulOperationError err = Some (st, f) \<and>
       (st = OperationStateFailed \<or> st = OperationStateCanceled) \<and> jsonMarshalFailure deps f = None
     \<longrightarrow> writeFailure deps writer err =
           Inr (writer\<lparr>rwHeader := (rwHeader writer)(headerOperationState \<mapsto> [st]),
                      rwStatus := Some StatusInternalServerError\<rparr>))
  \<and> (as_UnsuccessfulOperationError err = Some (st, f) \<and>
       st \<noteq> OperationStateFailed \<and> st \<noteq> OperationStateCanceled
     \<longrightarrow> writeFailure deps writer err = Inr (writer\<lparr>rwStatus := Some StatusInternalServerError\<rparr>))
  \<and> (as_UnsuccessfulOperationError err = None \<and> as_HandlerError err = Some (code, Some f) \<and>
       jsonMarshalFailure deps f = Some b \<and> 200 \<le> code \<and> code \<le> 999
     \<longrightarrow> writeFailure deps writer err =
           Inr (writer\<lparr>rwHeader := (rwHeader writer)(headerContentType \<mapsto> [contentTypeJSON]),
                      rwStatus := Some code,
                      rwBody := (if bodyAllowedForStatus code then rwBody writer @ b
                                 else rwBody writer)\<rparr>))
  \<and> (as_UnsuccessfulOperationError err = None \<and> as_HandlerError err = Some (code, Some f) \<and>
       jsonMarshalFailure deps f = None
     \<longrightarrow> writeFailure deps writer err = Inr (writer\<lparr>rwStatus := Some StatusInternalServerError\<rparr>))
  \<and> (as_UnsuccessfulOperationError err = None \<and> as_HandlerError err = Some (code, None) \<and>
       200 \<le> code \<and> code \<le> 999
     \<longrightarrow> writeFailure deps writer err = Inr (writer\<lparr>rwStatus := Some code\<rparr>))
  \<and> (as_UnsuccessfulOperationError err = None \<and> as_HandlerError err = None \<and>
       jsonMarshalFailure deps (messageFailure ''internal server error'') = Some b
     \<longrightarrow> writeFailure deps writer err =
           Inr (writer\<lparr>rwHeader := (rwHeader writer)(headerContentType \<mapsto> [contentTypeJSON]),
                      rwStatus := Some StatusInternalServerError, rwBody := rwBody writer @ b\<rparr>))
  \<and> (as_UnsuccessfulOperationError err = None \<and> as_HandlerError err = None \<and>
       jsonMarshalFailure deps (messageFailure ''internal server error'') = None
     \<longrightarrow> writeFailure deps writer err = Inr (writer\<lparr>rwStatus := Some StatusInternalServerError\<rparr>))"
proof -
  note fresh = assms(1)
  have set: "rwStatus (SetHeader writer k v) = None" for k v
    using fresh by (simp add: SetHeader_def)
  have internal: "200 \<le> StatusInternalServerError" "StatusInternalServerError \<le> 999"
    "bodyAllowedForStatus StatusInternalServerError"
    by (simp_all add: StatusInternalServerError_def bodyAllowedForStatus_def StatusNoContent_def
        StatusNotModified_def)
  have direct: "WriteHeader writer StatusInternalServerError
                = Inr (writer\<lparr>rwStatus := Some StatusInternalServerError\<rparr>)"
    using fresh internal by (simp add: WriteHeader_final)
  show ?thesis
    using fresh
    by (simp add: writeFailure_def renderFailure_final renderFailure_marshal_error set internal
        direct SetHeader_def Header_Set_names)
qed

theorem writeFailure_dispatch_witness:
  "rwStatus newResponseWriter = None
   \<and> rwHeader newResponseWriter ''Content-Length'' = None
   \<and> writeFailure example_server_deps newResponseWriter
       (Wrapped ''get result'' (UnsuccessfulOperationError ''canceled'' (messageFailure ''stop'')))
     = Inr \<lparr>rwHeader = (\<lambda>k. None)(headerOperationState \<mapsto> [''canceled''],
                                     headerContentType \<mapsto> [contentTypeJSON]),
            rwInformational = [], rwStatus = Some 424, rwBody = ''{stop}''\<rparr>
   \<and> writeFailure example_server_deps newResponseWriter
       (UnsuccessfulOperationError ''failed'' \<lparr>Message = ''boom'', Metadata = [], Details = ''invalid''\<rparr>)
     = Inr \<lparr>rwHeader = (\<lambda>k. None)(headerOperationState \<mapsto> [''failed'']),
            rwInformational = [], rwStatus = Some 500, rwBody = []\<rparr>
   \<and> writeFailure example_server_deps newResponseWriter (HandlerError 404 (Some (messageFailure ''gone'')))
     = Inr \<lparr>rwHeader = (\<lambda>k. None)(headerContentType \<mapsto> [contentTypeJSON]),
            rwInformational = [], rwStatus = Some 404, rwBody = ''{gone}''\<rparr>
   \<and> writeFailure example_server_deps newResponseWriter (HandlerError 403 None)
     = Inr \<lparr>rwHeader = (\<lambda>k. None), rwInformational = [], rwStatus = Some 403, rwBody = []\<rparr>
   \<and> writeFailure example_server_deps newResponseWriter (OtherError ''secret'')
     = Inr \<lparr>rwHeader = (\<lambda>k. None)(headerContentType \<mapsto> [contentTypeJSON]),
            rwInformational = [], rwStatus = Some 500, rwBody = ''{internal server error}''\<rparr>"
proof -
  have fresh: "rwStatus newResponseWriter = None"
    and plain: "rwHeader newResponseWriter ''Content-Length'' = None"
    by (simp_all add: newResponseWriter_def)
  show ?thesis
    using fresh plain
      writeFailure_dispatch[OF fresh plain, where deps = example_server_deps
        and err = "Wrapped ''get result'' (UnsuccessfulOperationError ''canceled'' (messageFailure ''stop''))"
        and st = "''canceled''" and f = "messageFailure ''stop''" and b = "''{stop}''" and code = 0]
      writeFailure_dispatch[OF fresh plain, where deps = example_server_deps
        and err = "UnsuccessfulOperationError ''failed'' \<lparr>Message = ''boom'', Metadata = [], Details = ''invalid''\<rparr>"
        and st = "''failed''" and f = "\<lparr>Message = ''boom'', Metadata = [], Details = ''invalid''\<rparr>"
        and b = "[]" and code = 0]
      writeFailure_dispatch[OF fresh plain, where deps = example_server_deps
        and err = "HandlerError 404 (Some (messageFailure ''gone''))"
        and st = "[]" and f = "messageFailure ''gone''" and b = "''{gone}''" and code = 404]
      writeFailure_dispatch[OF fresh plain, where deps = example_server_deps
        and err = "HandlerError 403 None"
        and st = "[]" and f = "messageFailure ''gone''" and b = "[]" and code = 403]
      writeFailure_dispatch[OF fresh plain, where deps = example_server_deps
        and err = "OtherError ''secret''"
        and st = "[]" and f = "messageFailure ''gone''" and b = "''{internal server error}''" and code = 0]
    by (simp add: newResponseWriter_def example_server_deps_def example_codes_def
        example_marshal_def messageFailure_def OperationStateFailed_def OperationStateCanceled_def
        StatusInternalServerError_def bodyAllowedForStatus_def StatusNoContent_def
        StatusNotModified_def)
qed

subsection \<open>The completion handler\<close>

text \<open>
  Claim C7. On a writer whose status is still open, and with a \<^verbatim>\<open>json.Marshal\<close> that
  succeeds on a failure holding only a message: a completion request whose
  operation-state header is none of \<^verbatim>\<open>succeeded\<close>, \<^verbatim>\<open>failed\<close> and \<^verbatim>\<open>canceled\<close> is
  answered with 400 and the user's handler is not invoked; and a request whose state is
  \<^verbatim>\<open>failed\<close> or \<^verbatim>\<open>canceled\<close> and whose content type is not JSON, or whose body cannot
  be read and decoded into a failure, is answered with 400 and the user's handler is
  not invoked.
\<close>

theorem completion_rejects_bad_requests:
  assumes "rwStatus writer = None"
    and "\<forall>m. jsonMarshalFailure h (messageFailure m) \<noteq> None"
  shows
   "(Header_Get (srHeader request) headerOperationState \<noteq> OperationStateSucceeded \<and>
     Header_Get (srHeader request) headerOperationState \<noteq> OperationStateFailed \<and>
     Header_Get (srHeader request) headerOperationState \<noteq> OperationStateCanceled
     \<longrightarrow> (\<exists>w. fst (completion_ServeHTTP h writer request) = Inr w \<and>
              responseStatus w = StatusBadRequest)
         \<and> snd (completion_ServeHTTP h writer request) = None)
  \<and> ((Header_Get (srHeader request) headerOperationState = OperationStateFailed \<or>
      Header_Get (srHeader request) headerOperationState = OperationStateCanceled) \<and>
     (\<not> isMediaTypeJSON h (Header_Get (srHeader request) headerContentType) \<or>
      (case ReadAll (srBody request) of None \<Rightarrow> True | Some b \<Rightarrow> jsonUnmarshalFailure h b = None))
     \<longrightarrow> (\<exists>w. fst (completion_ServeHTTP h writer request) = Inr w \<and>
              responseStatus w = StatusBadRequest)
         \<and> snd (completion_ServeHTTP h writer request) = None)"
  unfolding Inr_status_iff
  using bad_request_status[OF assms]
  by (simp add: completion_ServeHTTP_def Let_def split: option.splits)

theorem completion_rejects_bad_requests_witness:
  "rwStatus newResponseWriter = None
   \<and> (\<forall>m. jsonMarshalFailure example_completion_handler_deps (messageFailure m) \<noteq> None)
   \<and> completion_ServeHTTP example_completion_handler_deps newResponseWriter
       (completionRequestWith [(headerOperationState, ''Failed'')] ''{}'')
     = (Inr \<lparr>rwHeader = (\<lambda>k. None)(headerContentType \<mapsto> [contentTypeJSON]), rwInformational = [],
             rwStatus = Some 400,
             rwBody = ''{invalid request operation state: '' @ [CHR 0x22] @ ''Failed'' @ [CHR 0x22] @ ''}''\<rparr>,
        None)
   \<and> map_sum id responseStatus (fst (completion_ServeHTTP example_completion_handler_deps
       newResponseWriter
       (completionRequestWith [(headerOperationState, ''failed''), (headerContentType, ''text/plain'')]
          ''{}''))) = Inr 400
   \<and> snd (completion_ServeHTTP example_completion_handler_deps newResponseWriter
       (completionRequestWith [(headerOperationState, ''failed''), (headerContentType, ''text/plain'')]
          ''{}'')) = None
   \<and> (\<exists>c. snd (completion_ServeHTTP example_completion_handler_deps newResponseWriter
       (completionRequestWith [(headerOperationState, ''failed''),
          (headerContentType, ''application/json'')] ''{}'')) = Some c)"
proof -
  have fresh: "rwStatus newResponseWriter = None"
    by (simp add: newResponseWriter_def)
  have m: "\<forall>m. jsonMarshalFailure example_completion_handler_deps (messageFailure m) \<noteq> None"
    using example_marshal_message by (simp add: example_completion_handler_deps_def)
  have a: "completion_ServeHTTP example_completion_handler_deps newResponseWriter
       (completionRequestWith [(headerOperationState, ''Failed'')] ''{}'')
     = (Inr \<lparr>rwHeader = (\<lambda>k. None)(headerContentType \<mapsto> [contentTypeJSON]), rwInformational = [],
             rwStatus = Some 400,
             rwBody = ''{invalid request operation state: '' @ [CHR 0x22] @ ''Failed'' @ [CHR 0x22] @ ''}''\<rparr>,
        None)"
    by (simp add: completion_ServeHTTP_def Let_def completionRequestWith_def Header_Get_names
        example_completion_handler_deps_def header_names_distinct header_names_distinct[THEN not_sym] OperationStateFailed_def
        OperationStateCanceled_def OperationStateSucceeded_def HandlerErrorf_BadRequest_def
        writeFailure_def renderFailure_def example_marshal_def messageFailure_def
        newResponseWriter_def WriteHeader_then_Write_def WriteHeader_def Write_def SetHeader_def
        Header_Set_names StatusBadRequest_def StatusSwitchingProtocols_def bodyAllowedForStatus_def
        responseStatus_def StatusNoContent_def StatusNotModified_def)
  have c: "\<exists>c. snd (completion_ServeHTTP example_completion_handler_deps newResponseWriter
       (completionRequestWith [(headerOperationState, ''failed''),
          (headerContentType, ''application/json'')] ''{}'')) = Some c"
    by (simp add: completion_ServeHTTP_def Let_def completionRequestWith_def Header_Get_names
        example_completion_handler_deps_def header_names_distinct header_names_distinct[THEN not_sym] contentTypeJSON_def
        OperationStateFailed_def ReadAll_def newStream_def)
  show ?thesis
    using fresh m a c
      completion_rejects_bad_requests[OF fresh m, of
        "completionRequestWith [(headerOperationState, ''failed''), (headerContentType, ''text/plain'')] ''{}''"]
    unfolding Inr_status_iff
    by (simp add: completionRequestWith_def Header_Get_names example_completion_handler_deps_def
        header_names_distinct header_names_distinct[THEN not_sym] contentTypeJSON_def
        OperationStateFailed_def OperationStateCanceled_def OperationStateSucceeded_def
        StatusBadRequest_def)
qed

subsection \<open>The long-poll timeout of the server\<close>

lemma sync_status:
  assumes "rwStatus writer = None"
  shows "responseStatus (applyToHTTPResponse_Sync response writer) = StatusOK"
proof -
  have "responseStatus (writer\<lparr>rwHeader := H\<rparr>) = StatusOK" for H
    using assms by (simp add: responseStatus_def)
  then show ?thesis
    by (simp add: applyToHTTPResponse_Sync_def Let_def Write_status split: option.splits)
qed

lemma bad_request_not_timeout:
  assumes "rwStatus writer = None"
  shows "map_sum id responseStatus (writeFailure h writer (newBadRequestError m))
         \<noteq> Inr StatusRequestTimeout"
  using assms
  by (simp add: writeFailure_status newBadRequestError_def StatusBadRequest_def statusSent_final
      StatusRequestTimeout_def StatusInternalServerError_def split: option.splits)

lemma writeFailure_timeout_iff:
  assumes "rwStatus writer = None" "statusOperationFailed (codes h) \<noteq> StatusRequestTimeout"
  shows "map_sum id responseStatus (writeFailure h writer err) = Inr StatusRequestTimeout \<longleftrightarrow>
         as_UnsuccessfulOperationError err = None \<and>
         (\<exists>fo. as_HandlerError err = Some (StatusRequestTimeout, fo) \<and>
               (case fo of None \<Rightarrow> True | Some f \<Rightarrow> jsonMarshalFailure h f \<noteq> None))"
proof -
  have sent: "statusSent code = Inr 408 \<longleftrightarrow> code = 408" for code
    by (rule statusSent_eq_iff) (simp_all add: StatusOK_def)
  show ?thesis
    using assms
    by (auto simp: writeFailure_status sent StatusRequestTimeout_def StatusInternalServerError_def
        split: option.splits prod.splits)
qed

lemma getOperationResult_cases:
  "(snd (getOperationResult h writer request) = None \<and>
      (\<exists>m. fst (getOperationResult h writer request) = writeFailure h writer (newBadRequestError m)))
   \<or> (\<exists>hr. snd (getOperationResult h writer request) = Some hr \<and>
        fst (getOperationResult h writer request) = respondGetResult h writer (waitStrOf request \<noteq> []) hr \<and>
        (if waitStrOf request = [] then gr_Wait hr = 0
         else ParseDuration h (waitStrOf request) = Some (gr_Wait hr)))"
proof -
  obtain prefix idEsc where sp: "path_Split (path_Dir (RawPath (srURL request))) = (prefix, idEsc)"
    by fastforce
  show ?thesis
  proof (cases "PathUnescape idEsc")
    case None
    then show ?thesis using sp by (auto simp add: getOperationResult_def Let_def)
  next
    case (Some operationID)
    note ident = this
    show ?thesis
    proof (cases "PathUnescape (path_Base prefix)")
      case None
      then show ?thesis using sp ident by (auto simp add: getOperationResult_def Let_def)
    next
      case (Some operation)
      note op = this
      show ?thesis
      proof (cases "waitStrOf request = []")
        case True
        then show ?thesis using sp ident op
          by (simp add: getOperationResult_def Let_def)
      next
        case False
        note w = this
        show ?thesis
        proof (cases "ParseDuration h (waitStrOf request)")
          case None
          then show ?thesis using sp ident op w
            by (auto simp add: getOperationResult_def Let_def)
        next
          case (Some d)
          then show ?thesis using sp ident op w
            by (simp add: getOperationResult_def Let_def)
        qed
      qed
    qed
  qed
qed

lemma respondGetResult_timeout_iff:
  assumes fresh: "rwStatus writer = None"
    and running: "statusOperationRunning (codes h) \<noteq> StatusRequestTimeout"
    and failed: "statusOperationFailed (codes h) \<noteq> StatusRequestTimeout"
  shows "(\<exists>w. respondGetResult h writer derived hr = Inr w \<and> responseStatus w = StatusRequestTimeout)
    \<longleftrightarrow> (\<exists>response err. GetOperationResult h derived hr = (response, Some err) \<and>
          (0 <s gr_Wait hr \<and> ctxErrNonNil h derived
           \<or> \<not> errors_Is err ErrOperationStillRunning \<and> as_UnsuccessfulOperationError err = None \<and>
             (\<exists>fo. as_HandlerError err = Some (StatusRequestTimeout, fo) \<and>
                   (case fo of None \<Rightarrow> True | Some f \<Rightarrow> jsonMarshalFailure h f \<noteq> None))))"
proof (cases "GetOperationResult h derived hr")
  case (Pair response eo)
  show ?thesis
  proof (cases eo)
    case None
    have "responseStatus (applyToHTTPResponse_Sync r writer) \<noteq> StatusRequestTimeout" for r
      using sync_status[OF fresh, of r] by (simp add: StatusOK_def StatusRequestTimeout_def)
    then show ?thesis
      using Pair None
      by (cases response) (simp_all add: respondGetResult_def)
  next
    case (Some err)
    have sent: "statusSent code = Inr StatusRequestTimeout \<longleftrightarrow> code = StatusRequestTimeout" for code
      by (rule statusSent_eq_iff) (simp_all add: StatusRequestTimeout_def StatusOK_def)
    have direct: "map_sum id responseStatus (WriteHeader writer c) = Inr StatusRequestTimeout
                  \<longleftrightarrow> c = StatusRequestTimeout" for c
      using fresh by (simp add: WriteHeader_status sent)
    show ?thesis
      unfolding Inr_status_iff
      using Pair Some running direct writeFailure_timeout_iff[OF fresh failed, of err]
      by (auto simp add: respondGetResult_def)
  qed
qed

text \<open>
  Claim C1, as stated, at a request without a wait parameter whose handler returns a
  \<^verbatim>\<open>HandlerError\<close> with status code 408: the handler is invoked with a zero wait, and
  the response is 408.
\<close>

theorem getOperationResult_handler_error_408:
  "waitStrOf (resultRequest []) = []
   \<and> snd (getOperationResult timeoutHandlerError_deps newResponseWriter (resultRequest []))
       = Some \<lparr>gr_Operation = ''fo/o'', gr_OperationID = ''bar'', gr_Wait = 0\<rparr>
   \<and> GetOperationResult timeoutHandlerError_deps False
        \<lparr>gr_Operation = ''fo/o'', gr_OperationID = ''bar'', gr_Wait = 0\<rparr>
       = (None, Some (HandlerError 408 None))
   \<and> map_sum id responseStatus
        (fst (getOperationResult timeoutHandlerError_deps newResponseWriter (resultRequest [])))
       = Inr 408"
proof -
  have "waitStrOf (resultRequest []) = []"
    by code_simp
  moreover have "snd (getOperationResult timeoutHandlerError_deps newResponseWriter (resultRequest []))
       = Some \<lparr>gr_Operation = ''fo/o'', gr_OperationID = ''bar'', gr_Wait = 0\<rparr>"
    by code_simp
  moreover have "GetOperationResult timeoutHandlerError_deps False
        \<lparr>gr_Operation = ''fo/o'', gr_OperationID = ''bar'', gr_Wait = 0\<rparr>
       = (None, Some (HandlerError 408 None))"
    by (simp add: timeoutHandlerError_deps_def)
  moreover have "map_sum id responseStatus
        (fst (getOperationResult timeoutHandlerError_deps newResponseWriter (resultRequest [])))
       = Inr 408"
    by code_simp
  ultimately show ?thesis by simp
qed

text \<open>
  Claim C1, amended. On a writer that has sent no status yet, and with reserved status
  codes other than 408, \<^verbatim>\<open>getOperationResult\<close> answers 408 if and only if the user's
  handler was invoked and returned a non-nil error, and either the request carried a
  wait parameter parsing to a duration greater than zero and the context given to the
  handler (the one derived with \<^verbatim>\<open>GetResultTimeout\<close>) is done, or the error is not
  \<^verbatim>\<open>ErrOperationStillRunning\<close> and \<^verbatim>\<open>writeFailure\<close> renders it with 408: it carries
  no operation state and carries the status code 408 (with a failure that marshals, if
  any). The wait of the handler's request is greater than zero exactly when the request
  carried a wait parameter that parses to a duration greater than zero. When the wait
  is greater than zero and the context is done, the response is the bare 408 whatever
  the error is, \<^verbatim>\<open>ErrOperationStillRunning\<close> included.
\<close>

theorem getOperationResult_timeout:
  assumes fresh: "rwStatus writer = None"
    and running: "statusOperationRunning (codes h) \<noteq> StatusRequestTimeout"
    and failed: "statusOperationFailed (codes h) \<noteq> StatusRequestTimeout"
  shows
   "((\<exists>w. fst (getOperationResult h writer request) = Inr w \<and> responseStatus w = StatusRequestTimeout)
      \<longleftrightarrow> (\<exists>hr response err. snd (getOperationResult h writer request) = Some hr \<and>
            GetOperationResult h (waitStrOf request \<noteq> []) hr = (response, Some err) \<and>
            (0 <s gr_Wait hr \<and> ctxErrNonNil h (waitStrOf request \<noteq> [])
             \<or> \<not> errors_Is err ErrOperationStillRunning \<and> as_UnsuccessfulOperationError err = None \<and>
               (\<exists>fo. as_HandlerError err = Some (StatusRequestTimeout, fo) \<and>
                     (case fo of None \<Rightarrow> True | Some f \<Rightarrow> jsonMarshalFailure h f \<noteq> None)))))
  \<and> (\<forall>hr. snd (getOperationResult h writer request) = Some hr \<longrightarrow>
         (0 <s gr_Wait hr \<longleftrightarrow>
            waitStrOf request \<noteq> [] \<and> (\<exists>d. ParseDuration h (waitStrOf request) = Some d \<and> 0 <s d)))
  \<and> (\<forall>hr response err. snd (getOperationResult h writer request) = Some hr \<and>
         GetOperationResult h (waitStrOf request \<noteq> []) hr = (response, Some err) \<and>
         0 <s gr_Wait hr \<and> ctxErrNonNil h (waitStrOf request \<noteq> [])
       \<longrightarrow> fst (getOperationResult h writer request) = Inr (writer\<lparr>rwStatus := Some StatusRequestTimeout\<rparr>))"
proof -
  consider
    (rejected) m where "snd (getOperationResult h writer request) = None"
      "fst (getOperationResult h writer request) = writeFailure h writer (newBadRequestError m)"
  | (invoked) hr where "snd (getOperationResult h writer request) = Some hr"
      "fst (getOperationResult h writer request) = respondGetResult h writer (waitStrOf request \<noteq> []) hr"
      "if waitStrOf request = [] then gr_Wait hr = 0
       else ParseDuration h (waitStrOf request) = Some (gr_Wait hr)"
    using getOperationResult_cases[of h writer request] by blast
  then show ?thesis
  proof cases
    case rejected
    then show ?thesis
      using bad_request_not_timeout[OF fresh, of h m] unfolding Inr_status_iff by simp
  next
    case invoked
    have first: "(\<exists>w. fst (getOperationResult h writer request) = Inr w \<and> responseStatus w = StatusRequestTimeout)
      \<longleftrightarrow> (\<exists>hr response err. snd (getOperationResult h writer request) = Some hr \<and>
            GetOperationResult h (waitStrOf request \<noteq> []) hr = (response, Some err) \<and>
            (0 <s gr_Wait hr \<and> ctxErrNonNil h (waitStrOf request \<noteq> [])
             \<or> \<not> errors_Is err ErrOperationStillRunning \<and> as_UnsuccessfulOperationError err = None \<and>
               (\<exists>fo. as_HandlerError err = Some (StatusRequestTimeout, fo) \<and>
                     (case fo of None \<Rightarrow> True | Some f \<Rightarrow> jsonMarshalFailure h f \<noteq> None))))"
      using respondGetResult_timeout_iff[OF fresh running failed, of "waitStrOf request \<noteq> []" hr]
      by (simp add: invoked(1,2))
    have second: "0 <s gr_Wait hr \<longleftrightarrow>
            waitStrOf request \<noteq> [] \<and> (\<exists>d. ParseDuration h (waitStrOf request) = Some d \<and> 0 <s d)"
      using invoked(3) by (cases "waitStrOf request = []") auto
    have third: "GetOperationResult h (waitStrOf request \<noteq> []) hr = (response, Some err) \<Longrightarrow>
         0 <s gr_Wait hr \<Longrightarrow> ctxErrNonNil h (waitStrOf request \<noteq> [])
       \<Longrightarrow> fst (getOperationResult h writer request) = Inr (writer\<lparr>rwStatus := Some StatusRequestTimeout\<rparr>)"
      for response err
      using fresh
      by (simp add: invoked(2) respondGetResult_def WriteHeader_final StatusRequestTimeout_def)
    show ?thesis
    proof (intro conjI allI impI)
      show "(\<exists>w. fst (getOperationResult h writer request) = Inr w \<and> responseStatus w = StatusRequestTimeout)
      \<longleftrightarrow> (\<exists>hr response err. snd (getOperationResult h writer request) = Some hr \<and>
            GetOperationResult h (waitStrOf request \<noteq> []) hr = (response, Some err) \<and>
            (0 <s gr_Wait hr \<and> ctxErrNonNil h (waitStrOf request \<noteq> [])
             \<or> \<not> errors_Is err ErrOperationStillRunning \<and> as_UnsuccessfulOperationError err = None \<and>
               (\<exists>fo. as_HandlerError err = Some (StatusRequestTimeout, fo) \<and>
                     (case fo of None \<Rightarrow> True | Some f \<Rightarrow> jsonMarshalFailure h f \<noteq> None))))"
        by (rule first)
    next
      fix hr' assume "snd (getOperationResult h writer request) = Some hr'"
      then have "hr' = hr" using invoked(1) by simp
      then show "0 <s gr_Wait hr' \<longleftrightarrow>
            waitStrOf request \<noteq> [] \<and> (\<exists>d. ParseDuration h (waitStrOf request) = Some d \<and> 0 <s d)"
        using second by simp
    next
      fix hr' response err
      assume a: "snd (getOperationResult h writer request) = Some hr' \<and>
         GetOperationResult h (waitStrOf request \<noteq> []) hr' = (response, Some err) \<and>
         0 <s gr_Wait hr' \<and> ctxErrNonNil h (waitStrOf request \<noteq> [])"
      then have "hr' = hr" using invoked(1) by simp
      then show "fst (getOperationResult h writer request) = Inr (writer\<lparr>rwStatus := Some StatusRequestTimeout\<rparr>)"
        using a third by blast
    qed
  qed
qed

theorem getOperationResult_timeout_witness:
  "rwStatus newResponseWriter = None
   \<and> statusOperationRunning (codes example_handler_deps) \<noteq> StatusRequestTimeout
   \<and> statusOperationFailed (codes example_handler_deps) \<noteq> StatusRequestTimeout
   \<and> snd (getOperationResult example_handler_deps newResponseWriter
            (resultRequest [(''wait'', [''100ms''])]))
       = Some \<lparr>gr_Operation = ''fo/o'', gr_OperationID = ''bar'', gr_Wait = 100000000\<rparr>
   \<and> GetOperationResult example_handler_deps True
        \<lparr>gr_Operation = ''fo/o'', gr_OperationID = ''bar'', gr_Wait = 100000000\<rparr>
       = (None, Some ErrOperationStillRunning)
   \<and> ctxErrNonNil example_handler_deps True
   \<and> fst (getOperationResult example_handler_deps newResponseWriter
            (resultRequest [(''wait'', [''100ms''])]))
       = Inr (newResponseWriter\<lparr>rwStatus := Some StatusRequestTimeout\<rparr>)"
proof -
  let ?request = "resultRequest [(''wait'', [''100ms''])]"
  let ?hr = "\<lparr>gr_Operation = ''fo/o'', gr_OperationID = ''bar'', gr_Wait = 100000000\<rparr>"
  have fresh: "rwStatus newResponseWriter = None"
    by (simp add: newResponseWriter_def)
  have running: "statusOperationRunning (codes example_handler_deps) \<noteq> StatusRequestTimeout"
    and failed: "statusOperationFailed (codes example_handler_deps) \<noteq> StatusRequestTimeout"
    by (simp_all add: example_handler_deps_def example_codes_def StatusRequestTimeout_def)
  have invoked: "snd (getOperationResult example_handler_deps newResponseWriter ?request) = Some ?hr"
    by code_simp
  have returned: "GetOperationResult example_handler_deps True ?hr = (None, Some ErrOperationStillRunning)"
    by (simp add: example_handler_deps_def)
  have waitStr: "waitStrOf ?request \<noteq> []"
    by code_simp
  have positive: "0 <s gr_Wait ?hr"
    by code_simp
  have expired: "ctxErrNonNil example_handler_deps True"
    by (simp add: ctxErrNonNil_def example_handler_deps_def)
  have "fst (getOperationResult example_handler_deps newResponseWriter ?request)
       = Inr (newResponseWriter\<lparr>rwStatus := Some StatusRequestTimeout\<rparr>)"
    using getOperationResult_timeout[OF fresh running failed, of ?request]
      invoked returned waitStr positive expired
    by simp
  then show ?thesis
    using fresh running failed invoked returned expired by simp
qed

subsection \<open>Operation names and ids through the URL\<close>

text \<open>The model of the two libraries on examples of their documentation and tests.\<close>

lemma path_library_examples:
  "path_Clean ''abc/def/../ghi/../jkl'' = ''abc/jkl''"
  "path_Clean ''/abc/def/../../..'' = ''/''"
  "path_Clean ''abc/../../././../def'' = ''../../def''"
  "path_Split ''a/b/'' = (''a/b/'', [])"
  "path_Split ''a'' = ([], ''a'')"
  "path_Base ''////'' = ''/''"
  "path_Base ''a/b/.x'' = ''.x''"
  "path_Dir ''abc////def'' = ''abc''"
  "path_Dir ''/foo'' = ''/''"
  "path_Join [''a/'', ''b''] = ''a/b''"
  "path_Join [''/'', []] = ''/''"
  "PathEscape ''abc+def'' = ''abc+def''"
  "PathEscape ''one two'' = ''one%20two''"
  "PathEscape ''a/b'' = ''a%2Fb''"
  "PathUnescape ''1%41'' = Some ''1A''"
  "PathUnescape ''123%45%6'' = None"
  "setPath emptyURL ''/foo/bar'' = Some \<lparr>Path = ''/foo/bar'', RawPath = [], RawQuery = []\<rparr>"
  "setPath emptyURL ''/foo%2fbar'' = Some \<lparr>Path = ''/foo/bar'', RawPath = ''/foo%2fbar'', RawQuery = []\<rparr>"
  by code_simp+

lemma getOperationInfo_empty_RawPath:
  assumes "RawPath (srURL request) = []"
  shows "snd (getOperationInfo h writer request) = Some \<lparr>gi_Operation = ''.'', gi_OperationID = []\<rparr>"
  using assms
  by (simp add: getOperationInfo_def path_Split_def path_Base_def PathUnescape_def Let_def)

lemma getOperationInfo_escaped_names:
  "serverURL (infoURL emptyURL ''svc'' ''fo/o'' ''b ar'')
     = Some \<lparr>Path = ''/svc/fo/o/b ar'', RawPath = ''/svc/fo%2Fo/b%20ar'', RawQuery = []\<rparr>
   \<and> snd (getOperationInfo example_handler_deps newResponseWriter
        (getRequest \<lparr>Path = ''/svc/fo/o/b ar'', RawPath = ''/svc/fo%2Fo/b%20ar'', RawQuery = []\<rparr>))
     = Some \<lparr>gi_Operation = ''fo/o'', gi_OperationID = ''b ar''\<rparr>"
proof -
  have "serverURL (infoURL emptyURL ''svc'' ''fo/o'' ''b ar'')
     = Some \<lparr>Path = ''/svc/fo/o/b ar'', RawPath = ''/svc/fo%2Fo/b%20ar'', RawQuery = []\<rparr>"
    by code_simp
  moreover have "snd (getOperationInfo example_handler_deps newResponseWriter
        (getRequest \<lparr>Path = ''/svc/fo/o/b ar'', RawPath = ''/svc/fo%2Fo/b%20ar'', RawQuery = []\<rparr>))
     = Some \<lparr>gi_Operation = ''fo/o'', gi_OperationID = ''b ar''\<rparr>"
    by code_simp
  ultimately show ?thesis by simp
qed

text \<open>
  Claim C8, at the service \<^verbatim>\<open>svc\<close>, the operation \<^verbatim>\<open>foo\<close> and the id \<^verbatim>\<open>bar\<close>. The
  client's URL reaches the server as the path \<^verbatim>\<open>/svc/foo/bar\<close>, which is its own default
  encoding, so the server's \<^verbatim>\<open>RawPath\<close> is empty, and \<^verbatim>\<open>getOperationInfo\<close>, which reads
  \<^verbatim>\<open>RawPath\<close>, gives the user's handler the operation \<^verbatim>\<open>.\<close> and the empty id.
\<close>

theorem getOperationInfo_plain_names:
  "serverURL (infoURL emptyURL ''svc'' ''foo'' ''bar'')
     = Some \<lparr>Path = ''/svc/foo/bar'', RawPath = [], RawQuery = []\<rparr>
   \<and> snd (getOperationInfo example_handler_deps newResponseWriter
        (getRequest \<lparr>Path = ''/svc/foo/bar'', RawPath = [], RawQuery = []\<rparr>))
     = Some \<lparr>gi_Operation = ''.'', gi_OperationID = []\<rparr>"
proof -
  have "serverURL (infoURL emptyURL ''svc'' ''foo'' ''bar'')
     = Some \<lparr>Path = ''/svc/foo/bar'', RawPath = [], RawQuery = []\<rparr>"
    by code_simp
  moreover have "snd (getOperationInfo example_handler_deps newResponseWriter
        (getRequest \<lparr>Path = ''/svc/foo/bar'', RawPath = [], RawQuery = []\<rparr>))
     = Some \<lparr>gi_Operation = ''.'', gi_OperationID = []\<rparr>"
    by code_simp
  ultimately show ?thesis by simp
qed

subsection \<open>Durations\<close>

lemma sint_padding: "sint getResultContextPadding = 5000000000"
  by (simp add: getResultContextPadding_def)

lemma smin_le: "sint (smin a b) \<le> sint a" "sint (smin a b) \<le> sint b"
  by (simp_all add: smin_def word_sle_eq)

lemma sint_add_padding: "sint (u + getResultContextPadding) \<le> sint u + 5000000000"
  for u :: Duration
proof -
  have "- (2 ^ 63) \<le> sint u"
    using sint_ge[of u] by simp
  then have "- (2 ^ 63) \<le> sint u + 5000000000" by simp
  then have "signed_take_bit 63 (sint u + 5000000000) \<le> sint u + 5000000000"
    by (simp only: signed_take_bit_int_less_eq_self_iff)
  then show ?thesis
    by (simp add: sint_word_add sint_padding)
qed

lemma sint_sinceDuration: "sint (sinceDuration n) = int (min n (2 ^ 63 - 1))"
proof -
  let ?m = "min n (2 ^ 63 - 1)"
  have "int ?m < 2 ^ 63" by simp
  moreover have "- (2 ^ 63) \<le> int ?m" by simp
  ultimately have "signed_take_bit 63 (int ?m) = int ?m"
    using signed_take_bit_int_eq_self by blast
  then show ?thesis
    by (simp add: sinceDuration_def signed_of_nat)
qed

lemma sint_sub_since:
  fixes W :: Duration
  assumes "0 < sint W"
  shows "sint (W - sinceDuration n) = sint W - int (min n (2 ^ 63 - 1))"
proof -
  have "sint W < 2 ^ 63" using sint_lt[of W] by simp
  moreover have "int (min n (2 ^ 63 - 1)) \<le> 2 ^ 63 - 1" by simp
  ultimately have "- (2 ^ 63) \<le> sint W - int (min n (2 ^ 63 - 1))"
    "sint W - int (min n (2 ^ 63 - 1)) < 2 ^ 63"
    using assms by linarith+
  then have "signed_take_bit 63 (sint W - int (min n (2 ^ 63 - 1))) = sint W - int (min n (2 ^ 63 - 1))"
    by (rule signed_take_bit_int_eq_self)
  then show ?thesis
    by (simp add: sint_word_diff sint_sinceDuration)
qed

lemma Milliseconds_le:
  assumes "0 \<le> sint d"
  shows "Milliseconds d * 1000000 \<le> sint d"
proof -
  have "sint d sdiv 1000000 = sint d div 1000000"
    using assms by (simp add: signed_divide_int_def sgn_if)
  then show ?thesis
    by (simp add: Milliseconds_def)
qed

lemma positive_iff: "0 <s w \<longleftrightarrow> 0 < sint w"
  by (simp add: word_sless_alt)

lemma not_positive_iff: "\<not> 0 <s w \<longleftrightarrow> w \<le>s 0"
  by (auto simp add: word_sless_alt word_sle_eq)

subsection \<open>The long-poll loop of the client\<close>

lemma Values_Get_Set: "Values_Get (Values_Set q k v) k = v"
  by (simp add: Values_Get_def Values_Set_def)

lemma send_timeout:
  assumes "called s = Inr response" "StatusCode response = StatusRequestTimeout"
    "\<not> readFails (respBody response)"
  shows "sendGetOperationRequest deps (called s) = Inl errOperationWaitTimeout"
  using assms
  by (simp add: sendGetOperationRequest_def readAndReplaceBody_def ReadAll_def
      StatusRequestTimeout_def StatusOK_def)

lemma send_running:
  assumes "called s = Inr response" "StatusCode response = statusOperationRunning (cl_codes deps)"
    "StatusCode response \<noteq> StatusOK" "StatusCode response \<noteq> StatusRequestTimeout"
    "\<not> readFails (respBody response)"
  shows "sendGetOperationRequest deps (called s) = Inl ErrOperationStillRunning"
  using assms
  by (simp add: sendGetOperationRequest_def readAndReplaceBody_def ReadAll_def)

lemma send_ok:
  assumes "called s = Inr response" "StatusCode response = StatusOK"
  shows "sendGetOperationRequest deps (called s) = Inr response"
  using assms by (simp add: sendGetOperationRequest_def)

lemma loop_step:
  "GetResult_loop deps result ctx options wait query (s # script) =
    (if retries deps ctx wait query s
     then (sentRequest ctx wait query s
             # fst (GetResult_loop deps result ctx options
                     (opt_Wait options - sinceDuration (sinceStart s))
                     (snd (prepareRequest ctx wait query s)) script),
           snd (GetResult_loop deps result ctx options
                     (opt_Wait options - sinceDuration (sinceStart s))
                     (snd (prepareRequest ctx wait query s)) script))
     else ([sentRequest ctx wait query s], Some (returned deps result s)))"
  by (auto simp add: retries_def sentRequest_def returned_def Let_def split: prod.splits sum.splits)

lemma prepareRequest_positive:
  assumes "0 <s wait"
  shows "sint (fst (prepareRequest ctx wait query s)) \<le> sint wait"
    and "hasDeadline ctx \<Longrightarrow>
          sint (fst (prepareRequest ctx wait query s)) \<le> sint (untilDeadline s) + 5000000000"
    and "Values_Get (snd (prepareRequest ctx wait query s)) queryWait =
          showInt (Milliseconds (fst (prepareRequest ctx wait query s))) @ ''ms''"
proof -
  show "sint (fst (prepareRequest ctx wait query s)) \<le> sint wait"
    using assms smin_le(1) by (simp add: prepareRequest_def Let_def)
  show "sint (fst (prepareRequest ctx wait query s)) \<le> sint (untilDeadline s) + 5000000000"
    if "hasDeadline ctx"
  proof -
    have "sint (smin wait (untilDeadline s + getResultContextPadding))
            \<le> sint (untilDeadline s + getResultContextPadding)"
      by (rule smin_le(2))
    also have "\<dots> \<le> sint (untilDeadline s) + 5000000000"
      by (rule sint_add_padding)
    finally show ?thesis
      using assms that by (simp add: prepareRequest_def Let_def)
  qed
  show "Values_Get (snd (prepareRequest ctx wait query s)) queryWait =
          showInt (Milliseconds (fst (prepareRequest ctx wait query s))) @ ''ms''"
    using assms by (simp add: prepareRequest_def Let_def Values_Get_Set)
qed

lemma prepareRequest_not_positive:
  assumes "\<not> 0 <s wait"
  shows "prepareRequest ctx wait query s = (wait, [])"
  using assms by (simp add: prepareRequest_def)

lemma retries_positive:
  assumes "retries deps ctx wait query s"
  shows "0 <s wait" "0 <s fst (prepareRequest ctx wait query s)"
proof -
  show p: "0 <s fst (prepareRequest ctx wait query s)"
    using assms by (simp add: retries_def split: sum.splits)
  show "0 <s wait"
    using p prepareRequest_not_positive[of wait ctx query s] by (cases "0 <s wait") simp_all
qed

lemma loop_wait_bounds:
  assumes "sint wait \<le> sint (opt_Wait options)"
  shows "\<forall>r \<in> set (fst (GetResult_loop deps result ctx options wait query script)).
           0 <s head_wait r \<longrightarrow>
             sint (sent_wait r) \<le> sint (opt_Wait options)
           \<and> (hasDeadline ctx \<longrightarrow> sint (sent_wait r) \<le> sint (until_read r) + 5000000000)
           \<and> Values_Get (sent_query r) queryWait = showInt (Milliseconds (sent_wait r)) @ ''ms''"
  using assms
proof (induction script arbitrary: wait query)
  case Nil
  then show ?case by simp
next
  case (Cons s script)
  let ?sent = "sentRequest ctx wait query s"
  have here: "0 <s head_wait ?sent \<longrightarrow>
             sint (sent_wait ?sent) \<le> sint (opt_Wait options)
           \<and> (hasDeadline ctx \<longrightarrow> sint (sent_wait ?sent) \<le> sint (until_read ?sent) + 5000000000)
           \<and> Values_Get (sent_query ?sent) queryWait = showInt (Milliseconds (sent_wait ?sent)) @ ''ms''"
    using prepareRequest_positive[of wait ctx query s] Cons.prems
    by (auto simp add: sentRequest_def)
  show ?case
  proof (cases "retries deps ctx wait query s")
    case False
    then show ?thesis using here by (simp add: loop_step del: GetResult_loop.simps)
  next
    case True
    have "0 < sint (fst (prepareRequest ctx wait query s))"
      using retries_positive(2)[OF True] by (simp add: positive_iff)
    moreover have "sint (fst (prepareRequest ctx wait query s)) \<le> sint wait"
      using prepareRequest_positive(1)[OF retries_positive(1)[OF True]] .
    ultimately have "0 < sint (opt_Wait options)"
      using Cons.prems by linarith
    then have "sint (opt_Wait options - sinceDuration (sinceStart s)) \<le> sint (opt_Wait options)"
      by (simp add: sint_sub_since)
    from Cons.IH[OF this] show ?thesis
      using here True by (simp add: loop_step del: GetResult_loop.simps)
  qed
qed

lemma loop_empty_query:
  "\<forall>r \<in> set (fst (GetResult_loop deps result ctx options wait query script)).
     head_wait r \<le>s 0 \<longrightarrow> sent_query r = [] \<and> sent_wait r = head_wait r"
proof (induction script arbitrary: wait query)
  case Nil
  then show ?case by simp
next
  case (Cons s script)
  have here: "head_wait (sentRequest ctx wait query s) \<le>s 0 \<longrightarrow>
          sent_query (sentRequest ctx wait query s) = []
        \<and> sent_wait (sentRequest ctx wait query s) = head_wait (sentRequest ctx wait query s)"
    using prepareRequest_not_positive[of wait ctx query s]
    by (simp add: sentRequest_def not_positive_iff)
  show ?case
    using here Cons.IH by (simp add: loop_step del: GetResult_loop.simps)
qed

lemmas eval_client =
  GetResult_def prepareRequest_def sendGetOperationRequest_def sentRequest_def
  readAndReplaceBody_def ReadAll_def newStream_def answer_def tenSeconds_def noDeadline_def
  withDeadline_def example_client_deps_def example_codes_def routeResult_def Consume_def
  Values_Set_def Values_Get_def queryWait_def showInt_def Milliseconds_def char_of_eq_iff
  word_sless_alt word_sle_eq smin_def sinceDuration_def getResultContextPadding_def
  StatusOK_def StatusRequestTimeout_def Let_def emptyURL_def

lemma retries_timeout:
  assumes "called s = Inr response" "StatusCode response = StatusRequestTimeout"
    "\<not> readFails (respBody response)"
  shows "retries deps ctx wait query s \<longleftrightarrow> 0 <s fst (prepareRequest ctx wait query s)"
    and "returned deps result s =
           \<lparr>ret_result = result, ret_err = Some errOperationWaitTimeout, ret_body = None\<rparr>"
  using send_timeout[OF assms, of deps] by (simp_all add: retries_def returned_def)

lemma loop_first_request:
  "\<exists>trace. fst (GetResult_loop deps result ctx options wait query (s # script))
     = sentRequest ctx wait query s # trace"
  by (simp add: loop_step del: GetResult_loop.simps)

text \<open>
  Claim C2, as stated, at a call with \<^verbatim>\<open>options.Wait\<close> of ten seconds and no deadline,
  where the first request is answered with 408 after eleven seconds and the second
  with 408 again: the second request yields the wait-timeout outcome and the original
  wait is greater than zero, yet the call returns the wait-timeout error after two
  requests and the third step of the environment is never reached.
\<close>

theorem GetResult_second_timeout_returns:
  "0 <s opt_Wait tenSeconds
   \<and> map sent_query (fst (GetResult example_client_deps (Decoded []) noDeadline tenSeconds
        (Inr emptyURL)
        [answer 408 [] 0 11000000000, answer 408 [] 0 12000000000, answer 200 ''42'' 0 13000000000]))
     = [[(''wait'', [''10000ms''])], []]
   \<and> map_option ret_err (snd (GetResult example_client_deps (Decoded []) noDeadline tenSeconds
        (Inr emptyURL)
        [answer 408 [] 0 11000000000, answer 408 [] 0 12000000000, answer 200 ''42'' 0 13000000000]))
     = Some (Some errOperationWaitTimeout)"
  by (simp add: eval_client)

text \<open>
  Claim C2, amended. Whenever a request of the loop is answered with 408 (and the body
  of the answer can be read): if the value of \<^verbatim>\<open>wait\<close> in effect for that request (the
  remaining wait, after the clamp to the deadline) is greater than zero, the loop does
  not return; it sets \<^verbatim>\<open>wait\<close> to \<^verbatim>\<open>options.Wait\<close> minus the time elapsed since the
  start and goes into another iteration with the same request object, which sends the
  next request; otherwise the call returns the wait-timeout error.
\<close>

theorem GetResult_loop_retry:
  assumes "called s = Inr response" "StatusCode response = StatusRequestTimeout"
    "\<not> readFails (respBody response)"
  shows
   "(0 <s fst (prepareRequest ctx wait query s) \<longrightarrow>
       GetResult_loop deps result ctx options wait query (s # script) =
         (sentRequest ctx wait query s
            # fst (GetResult_loop deps result ctx options
                    (opt_Wait options - sinceDuration (sinceStart s))
                    (snd (prepareRequest ctx wait query s)) script),
          snd (GetResult_loop deps result ctx options
                    (opt_Wait options - sinceDuration (sinceStart s))
                    (snd (prepareRequest ctx wait query s)) script))
     \<and> (\<forall>s' script'. script = s' # script' \<longrightarrow>
          (\<exists>trace. fst (GetResult_loop deps result ctx options wait query (s # script)) =
             sentRequest ctx wait query s
               # sentRequest ctx (opt_Wait options - sinceDuration (sinceStart s))
                   (snd (prepareRequest ctx wait query s)) s'
               # trace)))
  \<and> (\<not> 0 <s fst (prepareRequest ctx wait query s) \<longrightarrow>
       GetResult_loop deps result ctx options wait query (s # script) =
         ([sentRequest ctx wait query s],
          Some \<lparr>ret_result = result, ret_err = Some errOperationWaitTimeout, ret_body = None\<rparr>))"
proof (intro conjI impI allI)
  assume p: "0 <s fst (prepareRequest ctx wait query s)"
  then have r: "retries deps ctx wait query s"
    by (simp add: retries_timeout(1)[OF assms])
  show eq: "GetResult_loop deps result ctx options wait query (s # script) =
         (sentRequest ctx wait query s
            # fst (GetResult_loop deps result ctx options
                    (opt_Wait options - sinceDuration (sinceStart s))
                    (snd (prepareRequest ctx wait query s)) script),
          snd (GetResult_loop deps result ctx options
                    (opt_Wait options - sinceDuration (sinceStart s))
                    (snd (prepareRequest ctx wait query s)) script))"
    using r by (simp add: loop_step del: GetResult_loop.simps)
  fix s' script'
  assume "script = s' # script'"
  then show "\<exists>trace. fst (GetResult_loop deps result ctx options wait query (s # script)) =
             sentRequest ctx wait query s
               # sentRequest ctx (opt_Wait options - sinceDuration (sinceStart s))
                   (snd (prepareRequest ctx wait query s)) s'
               # trace"
    using eq loop_first_request[of deps result ctx options
        "opt_Wait options - sinceDuration (sinceStart s)" "snd (prepareRequest ctx wait query s)"
        s' script']
    by auto
next
  assume "\<not> 0 <s fst (prepareRequest ctx wait query s)"
  then have "\<not> retries deps ctx wait query s"
    by (simp add: retries_timeout(1)[OF assms])
  then show "GetResult_loop deps result ctx options wait query (s # script) =
         ([sentRequest ctx wait query s],
          Some \<lparr>ret_result = result, ret_err = Some errOperationWaitTimeout, ret_body = None\<rparr>)"
    by (simp add: loop_step retries_timeout(2)[OF assms] del: GetResult_loop.simps)
qed

theorem GetResult_loop_retry_witness:
  "called (answer 408 [] 0 3000000000)
     = Inr \<lparr>StatusCode = 408, respHeader = (\<lambda>k. None), respBody = newStream []\<rparr>
   \<and> \<not> readFails (newStream [])
   \<and> 0 <s fst (prepareRequest noDeadline 10000000000 [] (answer 408 [] 0 3000000000))
   \<and> opt_Wait tenSeconds - sinceDuration 3000000000 = 7000000000
   \<and> map sent_query (fst (GetResult_loop example_client_deps (Decoded []) noDeadline tenSeconds
        10000000000 [] [answer 408 [] 0 3000000000, answer 200 ''42'' 0 4000000000]))
     = [[(''wait'', [''10000ms''])], [(''wait'', [''7000ms''])]]"
proof -
  let ?s = "answer 408 [] 0 3000000000"
  let ?response = "\<lparr>StatusCode = 408, respHeader = (\<lambda>k. None), respBody = newStream []\<rparr>"
  have c: "called ?s = Inr ?response"
    by (simp add: answer_def)
  have st: "StatusCode ?response = StatusRequestTimeout"
    by (simp add: StatusRequestTimeout_def)
  have rd: "\<not> readFails (respBody ?response)" and rd': "\<not> readFails (newStream [])"
    by (simp_all add: newStream_def)
  have p: "0 <s fst (prepareRequest noDeadline 10000000000 [] ?s)"
    by (simp add: eval_client)
  have w: "opt_Wait tenSeconds - sinceDuration 3000000000 = 7000000000"
    by (simp add: eval_client)
  have rest: "map sent_query (fst (GetResult_loop example_client_deps (Decoded []) noDeadline tenSeconds
      (opt_Wait tenSeconds - sinceDuration (sinceStart ?s))
      (snd (prepareRequest noDeadline 10000000000 [] ?s)) [answer 200 ''42'' 0 4000000000]))
     = [[(''wait'', [''7000ms''])]]"
    by (simp add: eval_client)
  have first: "sent_query (sentRequest noDeadline 10000000000 [] ?s) = [(''wait'', [''10000ms''])]"
    by (simp add: eval_client)
  have "map sent_query (fst (GetResult_loop example_client_deps (Decoded []) noDeadline tenSeconds
        10000000000 [] [?s, answer 200 ''42'' 0 4000000000]))
     = [[(''wait'', [''10000ms''])], [(''wait'', [''7000ms''])]]"
    using GetResult_loop_retry[OF c st rd, of noDeadline 10000000000 "[]" example_client_deps
        "Decoded []" tenSeconds "[answer 200 ''42'' 0 4000000000]"] p rest first
    by (simp del: GetResult_loop.simps)
  then show ?thesis
    using c rd' p w by simp
qed

text \<open>
  What does hold of the requests of the loop. An iteration that begins with a wait that
  is zero or negative sends its request with an empty query, whatever query the request
  object carried before.
\<close>

lemma GetResult_empty_query:
  "\<forall>r \<in> set (fst (GetResult deps result ctx options request script)).
     head_wait r \<le>s 0 \<longrightarrow> sent_query r = [] \<and> Values_Get (sent_query r) queryWait = []"
proof (cases request)
  case (Inl err)
  then show ?thesis by (simp add: GetResult_def)
next
  case (Inr url)
  then show ?thesis
    using loop_empty_query[of deps result ctx options "opt_Wait options" "RawQuery url" script]
    by (auto simp add: GetResult_def Values_Get_def)
qed

text \<open>
  A request that carries a wait parameter was sent by an iteration that began with a
  wait greater than zero. The parameter is the value of \<^verbatim>\<open>wait\<close> after the clamp, in
  whole milliseconds. That value of \<^verbatim>\<open>wait\<close> is at most the caller's \<^verbatim>\<open>options.Wait\<close>
  and, when the context has a deadline, at most the time until the deadline read in
  that iteration plus five seconds; the milliseconds written do not exceed it when it
  is not negative.
\<close>

lemma GetResult_clamped_wait_bounds:
  "\<forall>r \<in> set (fst (GetResult deps result ctx options request script)).
     Values_Get (sent_query r) queryWait \<noteq> [] \<longrightarrow>
       0 <s head_wait r
     \<and> Values_Get (sent_query r) queryWait = showInt (Milliseconds (sent_wait r)) @ ''ms''
     \<and> (0 \<le> sint (sent_wait r) \<longrightarrow> Milliseconds (sent_wait r) * 1000000 \<le> sint (sent_wait r))
     \<and> sint (sent_wait r) \<le> sint (opt_Wait options)
     \<and> (hasDeadline ctx \<longrightarrow> sint (sent_wait r) \<le> sint (until_read r) + 5000000000)"
proof (cases request)
  case (Inl err)
  then show ?thesis by (simp add: GetResult_def)
next
  case (Inr url)
  have trace: "fst (GetResult deps result ctx options request script) =
      fst (GetResult_loop deps result ctx options (opt_Wait options) (RawQuery url) script)"
    using Inr by (simp add: GetResult_def)
  show ?thesis
  proof (intro ballI impI)
    fix r
    assume r: "r \<in> set (fst (GetResult deps result ctx options request script))"
      and carries: "Values_Get (sent_query r) queryWait \<noteq> []"
    have "\<not> head_wait r \<le>s 0"
    proof
      assume "head_wait r \<le>s 0"
      then have "sent_query r = []"
        using loop_empty_query[of deps result ctx options "opt_Wait options" "RawQuery url" script] r
        by (simp add: trace)
      then show False
        using carries by (simp add: Values_Get_def)
    qed
    then have positive: "0 <s head_wait r"
      by (simp add: not_positive_iff[symmetric])
    have "sint (opt_Wait options) \<le> sint (opt_Wait options)" by simp
    from loop_wait_bounds[OF this, of deps result ctx "RawQuery url" script]
    show "0 <s head_wait r
     \<and> Values_Get (sent_query r) queryWait = showInt (Milliseconds (sent_wait r)) @ ''ms''
     \<and> (0 \<le> sint (sent_wait r) \<longrightarrow> Milliseconds (sent_wait r) * 1000000 \<le> sint (sent_wait r))
     \<and> sint (sent_wait r) \<le> sint (opt_Wait options)
     \<and> (hasDeadline ctx \<longrightarrow> sint (sent_wait r) \<le> sint (until_read r) + 5000000000)"
      using r positive Milliseconds_le by (simp add: trace)
  qed
qed

text \<open>
  Claim C9, at two calls with \<^verbatim>\<open>options.Wait\<close> of ten seconds. In the first the
  deadline of the context passed 7.5 seconds before the call: the clamp of line 86
  leaves a wait of minus 2.5 seconds, and the request is sent with \<^verbatim>\<open>wait=-2500ms\<close>.
  In the second the deadline is one second away; the first request carries
  \<^verbatim>\<open>wait=6000ms\<close> and is answered with 408 after nine seconds; the second iteration
  begins with a wait of one second, the deadline passed eight seconds ago, the clamp
  leaves a wait of minus three seconds, and the reused request is sent with
  \<^verbatim>\<open>wait=-3000ms\<close>. In both the remaining wait is negative and the query is not empty.
\<close>

theorem GetResult_clamped_wait_sent:
  "fst (GetResult example_client_deps (Decoded []) withDeadline tenSeconds (Inr emptyURL)
          [answer 412 [] (- 7500000000) 1000])
     = [\<lparr>head_wait = 10000000000, until_read = - 7500000000, sent_wait = - 2500000000,
         sent_query = [(''wait'', [''-2500ms''])]\<rparr>]
   \<and> (- 2500000000 :: Duration) \<le>s 0
   \<and> Values_Get [(''wait'', [''-2500ms''])] queryWait = ''-2500ms''
   \<and> fst (GetResult example_client_deps (Decoded []) withDeadline tenSeconds (Inr emptyURL)
          [answer 408 [] 1000000000 9000000000, answer 412 [] (- 8000000000) 9000001000])
     = [\<lparr>head_wait = 10000000000, until_read = 1000000000, sent_wait = 6000000000,
         sent_query = [(''wait'', [''6000ms''])]\<rparr>,
        \<lparr>head_wait = 1000000000, until_read = - 8000000000, sent_wait = - 3000000000,
         sent_query = [(''wait'', [''-3000ms''])]\<rparr>]
   \<and> (- 3000000000 :: Duration) \<le>s 0
   \<and> Values_Get [(''wait'', [''-3000ms''])] queryWait = ''-3000ms''
   \<and> snd (GetResult example_client_deps (Decoded []) withDeadline tenSeconds (Inr emptyURL)
          [answer 408 [] 1000000000 9000000000, answer 412 [] (- 8000000000) 9000001000])
     = Some \<lparr>ret_result = Decoded [], ret_err = Some ErrOperationStillRunning, ret_body = None\<rparr>"
  by (simp add: eval_client signed_divide_int_def)

text \<open>
  Claim C3, at a call with \<^verbatim>\<open>options.Wait\<close> of ten seconds and a context whose deadline
  passed 5.0000005 seconds before the request is prepared. The clamp of line 86 leaves
  a wait of minus 500 nanoseconds, \<^verbatim>\<open>Milliseconds\<close> truncates it towards zero, and the
  request is sent with \<^verbatim>\<open>wait=0ms\<close>: the wait value sent, zero, is greater than the time
  until the deadline plus five seconds, which is negative.
\<close>

theorem GetResult_wait_exceeds_deadline_bound:
  "fst (GetResult example_client_deps (Decoded []) withDeadline tenSeconds (Inr emptyURL)
          [answer 412 [] (- 5000000500) 1000])
     = [\<lparr>head_wait = 10000000000, until_read = - 5000000500, sent_wait = - 500,
         sent_query = [(''wait'', [''0ms''])]\<rparr>]
   \<and> Values_Get [(''wait'', [''0ms''])] queryWait = ''0ms''
   \<and> showInt (Milliseconds (- 500)) @ ''ms'' = ''0ms''
   \<and> Milliseconds (- 500) = 0
   \<and> sint (- 5000000500 :: Duration) + 5000000000 < 0 * 1000000"
  by (simp add: eval_client signed_divide_int_def)

text \<open>
  Claim C4, as stated, at a call with \<^verbatim>\<open>options.Wait\<close> of ten seconds and no deadline
  whose first request is answered with 408 after eleven seconds, so that the recomputed
  wait is negative. When the next answer is 408 again, the call returns the
  wait-timeout error, not \<^verbatim>\<open>ErrOperationStillRunning\<close>; when the next answer is 200,
  the call returns the decoded result and no error.
\<close>

theorem GetResult_exhausted_wait_other_outcomes:
  "0 <s opt_Wait tenSeconds
   \<and> opt_Wait tenSeconds - sinceDuration 11000000000 \<le>s 0
   \<and> map_option ret_err (snd (GetResult example_client_deps (Decoded []) noDeadline tenSeconds
        (Inr emptyURL) [answer 408 [] 0 11000000000, answer 408 [] 0 12000000000]))
     = Some (Some errOperationWaitTimeout)
   \<and> snd (GetResult example_client_deps (Decoded []) noDeadline tenSeconds
        (Inr emptyURL) [answer 408 [] 0 11000000000, answer 200 ''42'' 0 12000000000])
     = Some \<lparr>ret_result = Decoded ''42'', ret_err = None,
              ret_body = Some \<lparr>content = ''42'', readFails = False, drained = True, closed = True\<rparr>\<rparr>"
  by (simp add: eval_client)

text \<open>
  Claim C4, amended. When a request of \<^verbatim>\<open>GetResult\<close> that carries a wait greater than
  zero is answered with 408 and the recomputed remaining wait is zero or negative, the
  loop does not return at that point: it sends one more request, with an empty query,
  and the call returns the outcome of that request. It surfaces
  \<^verbatim>\<open>ErrOperationStillRunning\<close> when that request is answered with the reserved
  operation-running status (a status other than 200 and 408, with a readable body).
  The first request of a call is the case where \<open>wait\<close> is \<^verbatim>\<open>options.Wait\<close>.
\<close>

theorem GetResult_exhausted_wait:
  assumes "called s1 = Inr response" "StatusCode response = StatusRequestTimeout"
    "\<not> readFails (respBody response)"
    and "0 <s fst (prepareRequest ctx wait query s1)"
    and "opt_Wait options - sinceDuration (sinceStart s1) \<le>s 0"
  shows
   "GetResult_loop deps result ctx options wait query (s1 # s2 # script) =
      ([sentRequest ctx wait query s1,
        \<lparr>head_wait = opt_Wait options - sinceDuration (sinceStart s1),
         until_read = untilDeadline s2,
         sent_wait = opt_Wait options - sinceDuration (sinceStart s1),
         sent_query = []\<rparr>],
       Some (returned deps result s2))
  \<and> (\<forall>response2. called s2 = Inr response2 \<and>
        StatusCode response2 = statusOperationRunning (cl_codes deps) \<and>
        StatusCode response2 \<noteq> StatusOK \<and> StatusCode response2 \<noteq> StatusRequestTimeout \<and>
        \<not> readFails (respBody response2)
      \<longrightarrow> returned deps result s2 =
            \<lparr>ret_result = result, ret_err = Some ErrOperationStillRunning, ret_body = None\<rparr>)"
proof (intro conjI allI impI)
  let ?w = "opt_Wait options - sinceDuration (sinceStart s1)"
  let ?q = "snd (prepareRequest ctx wait query s1)"
  have np: "\<not> 0 <s ?w"
    using assms(5) by (simp add: not_positive_iff)
  then have prep: "prepareRequest ctx ?w ?q s2 = (?w, [])"
    by (rule prepareRequest_not_positive)
  then have stop: "\<not> retries deps ctx ?w ?q s2"
    using np by (simp add: retries_def split: sum.splits)
  have second: "GetResult_loop deps result ctx options ?w ?q (s2 # script) =
      ([\<lparr>head_wait = ?w, until_read = untilDeadline s2, sent_wait = ?w, sent_query = []\<rparr>],
       Some (returned deps result s2))"
    using stop prep by (simp add: loop_step sentRequest_def del: GetResult_loop.simps)
  have first: "retries deps ctx wait query s1"
    using assms(4) by (simp add: retries_timeout(1)[OF assms(1,2,3)])
  show "GetResult_loop deps result ctx options wait query (s1 # s2 # script) =
      ([sentRequest ctx wait query s1,
        \<lparr>head_wait = ?w, until_read = untilDeadline s2, sent_wait = ?w, sent_query = []\<rparr>],
       Some (returned deps result s2))"
    using first second
    by (simp add: loop_step[of deps result ctx options wait query s1]
        del: GetResult_loop.simps)
next
  fix response2
  assume "called s2 = Inr response2 \<and>
        StatusCode response2 = statusOperationRunning (cl_codes deps) \<and>
        StatusCode response2 \<noteq> StatusOK \<and> StatusCode response2 \<noteq> StatusRequestTimeout \<and>
        \<not> readFails (respBody response2)"
  then have "sendGetOperationRequest deps (called s2) = Inl ErrOperationStillRunning"
    using send_running[of s2 response2 deps] by simp
  then show "returned deps result s2 =
            \<lparr>ret_result = result, ret_err = Some ErrOperationStillRunning, ret_body = None\<rparr>"
    by (simp add: returned_def)
qed

theorem GetResult_exhausted_wait_witness:
  "called (answer 408 [] 0 11000000000)
     = Inr \<lparr>StatusCode = 408, respHeader = (\<lambda>k. None), respBody = newStream []\<rparr>
   \<and> \<not> readFails (newStream [])
   \<and> 0 <s fst (prepareRequest noDeadline (opt_Wait tenSeconds) (RawQuery emptyURL)
                 (answer 408 [] 0 11000000000))
   \<and> opt_Wait tenSeconds - sinceDuration (sinceStart (answer 408 [] 0 11000000000)) \<le>s 0
   \<and> called (answer 412 [] 0 12000000000)
     = Inr \<lparr>StatusCode = 412, respHeader = (\<lambda>k. None), respBody = newStream []\<rparr>
   \<and> statusOperationRunning (cl_codes example_client_deps) = 412
   \<and> snd (GetResult example_client_deps (Decoded []) noDeadline tenSeconds (Inr emptyURL)
          [answer 408 [] 0 11000000000, answer 412 [] 0 12000000000])
     = Some \<lparr>ret_result = Decoded [], ret_err = Some ErrOperationStillRunning, ret_body = None\<rparr>"
proof -
  let ?s1 = "answer 408 [] 0 11000000000"
  let ?s2 = "answer 412 [] 0 12000000000"
  let ?r1 = "\<lparr>StatusCode = 408, respHeader = (\<lambda>k. None), respBody = newStream []\<rparr>"
  let ?r2 = "\<lparr>StatusCode = 412, respHeader = (\<lambda>k. None), respBody = newStream []\<rparr>"
  have c1: "called ?s1 = Inr ?r1" and c2: "called ?s2 = Inr ?r2"
    by (simp_all add: answer_def)
  have st: "StatusCode ?r1 = StatusRequestTimeout"
    by (simp add: StatusRequestTimeout_def)
  have rd: "\<not> readFails (respBody ?r1)" and rd': "\<not> readFails (newStream [])"
    by (simp_all add: newStream_def)
  have p: "0 <s fst (prepareRequest noDeadline (opt_Wait tenSeconds) (RawQuery emptyURL) ?s1)"
    by (simp add: eval_client)
  have e: "opt_Wait tenSeconds - sinceDuration (sinceStart ?s1) \<le>s 0"
    by (simp add: eval_client)
  have code: "statusOperationRunning (cl_codes example_client_deps) = 412"
    by (simp add: example_client_deps_def example_codes_def)
  have other: "StatusCode ?r2 = statusOperationRunning (cl_codes example_client_deps)"
    "StatusCode ?r2 \<noteq> StatusOK" "StatusCode ?r2 \<noteq> StatusRequestTimeout"
    "\<not> readFails (respBody ?r2)"
    by (simp_all add: code StatusOK_def StatusRequestTimeout_def newStream_def)
  have "snd (GetResult example_client_deps (Decoded []) noDeadline tenSeconds (Inr emptyURL)
          [?s1, ?s2])
     = Some \<lparr>ret_result = Decoded [], ret_err = Some ErrOperationStillRunning, ret_body = None\<rparr>"
    unfolding GetResult_def
    using GetResult_exhausted_wait[OF c1 st rd p e, of example_client_deps "Decoded []" ?s2 "[]"]
      c2 other
    by (simp del: GetResult_loop.simps)
  then show ?thesis
    using c1 c2 rd' p e code by simp
qed

text \<open>
  Claim C6. When a request of \<^verbatim>\<open>GetResult\<close> is answered with 200, the call returns at
  once. If the handle's type \<^verbatim>\<open>T\<close> is \<^verbatim>\<open>*LazyValue\<close>, it returns the lazy value built
  from the client's serializer, the response body and the projected header, with no
  error, and the body is left as it came: not read, not closed. For any other \<^verbatim>\<open>T\<close> it
  returns what \<^verbatim>\<open>Consume\<close> leaves in the result variable, together with the error of
  \<^verbatim>\<open>Consume\<close>; the body is closed, and when it can be read it is drained and the value
  and the error are those of the serializer's \<^verbatim>\<open>Deserialize\<close> on the content read.
\<close>

theorem GetResult_routes_by_type:
  assumes "called s = Inr response" "StatusCode response = StatusOK"
  shows
   "GetResult_loop deps result ctx options wait query (s # script) =
      ([sentRequest ctx wait query s], Some (routeResult deps result response))
  \<and> (isLazyValuePtr result \<longrightarrow>
       routeResult deps result response =
         \<lparr>ret_result = LazyValuePtr
            \<lparr>serializer = optionsSerializerOf deps,
             Reader = \<lparr>ReadCloser = respBody response,
                       rdHeader = contentHeaderOf deps (respHeader response)\<rparr>\<rparr>,
          ret_err = None, ret_body = Some (respBody response)\<rparr>)
  \<and> (\<forall>v. result = Decoded v \<longrightarrow>
       (let l = \<lparr>serializer = optionsSerializerOf deps,
                 Reader = \<lparr>ReadCloser = respBody response,
                           rdHeader = contentHeaderOf deps (respHeader response)\<rparr>\<rparr>;
            consumed = Consume deps l v
        in routeResult deps result response =
             \<lparr>ret_result = Decoded (fst consumed), ret_err = fst (snd consumed),
              ret_body = Some (snd (snd consumed))\<rparr>
         \<and> closed (snd (snd consumed))
         \<and> (\<not> readFails (respBody response) \<longrightarrow>
              drained (snd (snd consumed))
            \<and> (fst consumed, fst (snd consumed)) =
                Deserialize deps (optionsSerializerOf deps)
                  \<lparr>ctHeader = contentHeaderOf deps (respHeader response),
                   ctData = content (respBody response)\<rparr> v)))"
proof (intro conjI allI impI)
  have "\<not> retries deps ctx wait query s"
    using send_ok[OF assms, of deps] by (simp add: retries_def)
  then show "GetResult_loop deps result ctx options wait query (s # script) =
      ([sentRequest ctx wait query s], Some (routeResult deps result response))"
    using send_ok[OF assms, of deps]
    by (simp add: loop_step returned_def del: GetResult_loop.simps)
next
  assume "isLazyValuePtr result"
  then show "routeResult deps result response =
         \<lparr>ret_result = LazyValuePtr
            \<lparr>serializer = optionsSerializerOf deps,
             Reader = \<lparr>ReadCloser = respBody response,
                       rdHeader = contentHeaderOf deps (respHeader response)\<rparr>\<rparr>,
          ret_err = None, ret_body = Some (respBody response)\<rparr>"
    by (cases result) (simp_all add: routeResult_def)
next
  fix v
  assume "result = Decoded v"
  then show "let l = \<lparr>serializer = optionsSerializerOf deps,
                 Reader = \<lparr>ReadCloser = respBody response,
                           rdHeader = contentHeaderOf deps (respHeader response)\<rparr>\<rparr>;
            consumed = Consume deps l v
        in routeResult deps result response =
             \<lparr>ret_result = Decoded (fst consumed), ret_err = fst (snd consumed),
              ret_body = Some (snd (snd consumed))\<rparr>
         \<and> closed (snd (snd consumed))
         \<and> (\<not> readFails (respBody response) \<longrightarrow>
              drained (snd (snd consumed))
            \<and> (fst consumed, fst (snd consumed)) =
                Deserialize deps (optionsSerializerOf deps)
                  \<lparr>ctHeader = contentHeaderOf deps (respHeader response),
                   ctData = content (respBody response)\<rparr> v)"
    by (simp add: routeResult_def Consume_def ReadAll_def Let_def split: prod.splits)
qed

theorem GetResult_routes_by_type_witness:
  "called (answer 200 ''42'' 0 1000000000)
     = Inr \<lparr>StatusCode = 200, respHeader = (\<lambda>k. None), respBody = newStream ''42''\<rparr>
   \<and> snd (GetResult_loop example_client_deps NilLazyValue noDeadline tenSeconds 10000000000 []
        [answer 200 ''42'' 0 1000000000])
     = Some \<lparr>ret_result = LazyValuePtr
               \<lparr>serializer = (),
                Reader = \<lparr>ReadCloser = \<lparr>content = ''42'', readFails = False, drained = False,
                                        closed = False\<rparr>,
                          rdHeader = (\<lambda>k. None)\<rparr>\<rparr>,
             ret_err = None,
             ret_body = Some \<lparr>content = ''42'', readFails = False, drained = False, closed = False\<rparr>\<rparr>
   \<and> snd (GetResult_loop example_client_deps (Decoded []) noDeadline tenSeconds 10000000000 []
        [answer 200 ''42'' 0 1000000000])
     = Some \<lparr>ret_result = Decoded ''42'', ret_err = None,
             ret_body = Some \<lparr>content = ''42'', readFails = False, drained = True, closed = True\<rparr>\<rparr>"
proof -
  let ?s = "answer 200 ''42'' 0 1000000000"
  let ?response = "\<lparr>StatusCode = 200, respHeader = (\<lambda>k. None), respBody = newStream ''42''\<rparr>"
  have c: "called ?s = Inr ?response"
    by (simp add: answer_def)
  have ok: "StatusCode ?response = StatusOK"
    by (simp add: StatusOK_def)
  show ?thesis
    using c
      GetResult_routes_by_type[OF c ok, of example_client_deps NilLazyValue noDeadline tenSeconds
        10000000000 "[]" "[]"]
      GetResult_routes_by_type[OF c ok, of example_client_deps "Decoded []" noDeadline tenSeconds
        10000000000 "[]" "[]"]
    by (simp add: Let_def Consume_def ReadAll_def newStream_def example_client_deps_def
        del: GetResult_loop.simps)
qed

subsection \<open>Headers of a completion request\<close>

lemma links_onlyD:
  "links_only deps \<Longrightarrow> k \<noteq> headerLink \<Longrightarrow> fst (addLinksToHTTPHeader deps ls h) k = h k"
  by (simp add: links_only_def)

lemma links_only_example: "links_only example_completion_deps"
  by (simp add: links_only_def example_completion_deps_def)

lemma successful_header:
  "reqHeader (fst (applyToHTTPRequest_Successful deps c request)) =
    (if nilable_Get (cs_Header c) headerLink = []
     then fst (addLinksToHTTPHeader deps (cs_StartLinks c) (successful_header_before_links deps c request))
     else successful_header_before_links deps c request)"
  by (simp add: applyToHTTPRequest_Successful_def successful_header_before_links_def Let_def
      split: prod.splits option.splits)

lemma unsuccessful_header:
  "reqHeader (fst (applyToHTTPRequest_Unsuccessful deps c request)) =
    (if nilable_Get (cu_Header c) headerLink = []
     then fst (addLinksToHTTPHeader deps (cu_StartLinks c) (unsuccessful_header_before_links deps c request))
     else unsuccessful_header_before_links deps c request)"
  by (simp add: applyToHTTPRequest_Unsuccessful_def unsuccessful_header_before_links_def Let_def
      split: prod.splits option.splits sum.splits)

lemma successful_header_key:
  assumes "links_only deps" "k \<noteq> headerLink"
  shows "reqHeader (fst (applyToHTTPRequest_Successful deps c request)) k =
         successful_header_before_links deps c request k"
  using assms by (simp add: successful_header links_onlyD)

lemma unsuccessful_header_key:
  assumes "links_only deps" "k \<noteq> headerLink"
  shows "reqHeader (fst (applyToHTTPRequest_Unsuccessful deps c request)) k =
         unsuccessful_header_before_links deps c request k"
  using assms by (simp add: unsuccessful_header links_onlyD)

lemma successful_before_state:
  "successful_header_before_links deps c request headerOperationState = Some [OperationStateSucceeded]"
  by (simp add: successful_header_before_links_def Let_def Header_Set_names header_names_distinct)

lemma unsuccessful_before_state:
  "unsuccessful_header_before_links deps c request headerOperationState = Some [cu_State c]"
  by (simp add: unsuccessful_header_before_links_def Let_def Header_Set_names header_names_distinct)

lemma successful_before_id:
  "successful_header_before_links deps c request HeaderOperationID =
    (if nilable_Get (cs_Header c) HeaderOperationID = [] \<and> cs_OperationID c \<noteq> []
     then Some [cs_OperationID c] else baseHeader (cs_Header c) request HeaderOperationID)"
  using header_names_distinct(5,8)
  by (simp add: successful_header_before_links_def Let_def Header_Set_names)

lemma unsuccessful_before_id:
  "unsuccessful_header_before_links deps c request HeaderOperationID =
    (if nilable_Get (cu_Header c) HeaderOperationID = [] \<and> cu_OperationID c \<noteq> []
     then Some [cu_OperationID c] else baseHeader (cu_Header c) request HeaderOperationID)"
  using header_names_distinct(5,8,9)
  by (simp add: unsuccessful_header_before_links_def Let_def Header_Set_names)

lemma successful_before_start:
  "successful_header_before_links deps c request headerOperationStartTime =
    (if nilable_Get (cs_Header c) headerOperationStartTime = [] \<and> \<not> IsZero (cs_StartTime c)
     then Some [formatHTTPTime deps (cs_StartTime c)]
     else baseHeader (cs_Header c) request headerOperationStartTime)"
  using header_names_distinct(6,8)
  by (simp add: successful_header_before_links_def Let_def Header_Set_names)

lemma unsuccessful_before_start:
  "unsuccessful_header_before_links deps c request headerOperationStartTime =
    (if nilable_Get (cu_Header c) headerOperationStartTime = [] \<and> \<not> IsZero (cu_StartTime c)
     then Some [formatHTTPTime deps (cu_StartTime c)]
     else baseHeader (cu_Header c) request headerOperationStartTime)"
  using header_names_distinct(6,8,10)
  by (simp add: unsuccessful_header_before_links_def Let_def Header_Set_names)

lemma successful_before_link:
  "successful_header_before_links deps c request headerLink = baseHeader (cs_Header c) request headerLink"
  using header_names_distinct(1,2,3)
  by (simp add: successful_header_before_links_def Let_def Header_Set_names)

lemma unsuccessful_before_link:
  "unsuccessful_header_before_links deps c request headerLink = baseHeader (cu_Header c) request headerLink"
  using header_names_distinct(1,2,3,4)
  by (simp add: unsuccessful_header_before_links_def Let_def Header_Set_names)

lemma successful_before_other:
  assumes "k \<noteq> headerOperationState" "k \<noteq> HeaderOperationID" "k \<noteq> headerOperationStartTime"
  shows "successful_header_before_links deps c request k = baseHeader (cs_Header c) request k"
  using assms by (simp add: successful_header_before_links_def Let_def Header_Set_names)

lemma unsuccessful_before_other:
  assumes "k \<noteq> headerOperationState" "k \<noteq> HeaderOperationID" "k \<noteq> headerOperationStartTime"
    "k \<noteq> headerContentType"
  shows "unsuccessful_header_before_links deps c request k = baseHeader (cu_Header c) request k"
  using assms by (simp add: unsuccessful_header_before_links_def Let_def Header_Set_names)

lemma unsuccessful_before_content_type:
  "unsuccessful_header_before_links deps c request headerContentType = Some [contentTypeJSON]"
  using header_names_distinct(7,9,10)
  by (simp add: unsuccessful_header_before_links_def Let_def Header_Set_names)

text \<open>
  Claim C10, as stated, at two caller-supplied header maps. The first holds the
  operation id \<^verbatim>\<open>from-header\<close> under the canonical key, as the second value after an
  empty one: the map contains a non-empty value for the header, and the request's
  header is the struct's \<^verbatim>\<open>OperationID\<close>, the caller's values replaced. The second
  holds an operation id and an operation state under lower-case spellings of the keys:
  the request's canonical operation-id entry is the struct's \<^verbatim>\<open>OperationID\<close>, and the
  caller's lower-case entries stay in the map, the state \<^verbatim>\<open>failed\<close> beside the
  completion's \<^verbatim>\<open>succeeded\<close>.
\<close>

theorem completion_request_header_spellings:
  "Header_Values (the (cs_Header later_value_successful)) HeaderOperationID = Some [[], ''from-header'']
   \<and> cs_OperationID later_value_successful = ''from-struct''
   \<and> reqHeader (fst (applyToHTTPRequest_Successful example_completion_deps later_value_successful
        emptyRequest)) HeaderOperationID = Some [''from-struct'']
   \<and> the (cs_Header other_spelling_successful) ''nexus-operation-id'' = Some [''from-header'']
   \<and> the (cs_Header other_spelling_successful) ''nexus-operation-state'' = Some [''failed'']
   \<and> CanonicalMIMEHeaderKey ''nexus-operation-id'' = HeaderOperationID
   \<and> CanonicalMIMEHeaderKey ''nexus-operation-state'' = headerOperationState
   \<and> reqHeader (fst (applyToHTTPRequest_Successful example_completion_deps other_spelling_successful
        emptyRequest)) HeaderOperationID = Some [''from-struct'']
   \<and> reqHeader (fst (applyToHTTPRequest_Successful example_completion_deps other_spelling_successful
        emptyRequest)) ''nexus-operation-id'' = Some [''from-header'']
   \<and> reqHeader (fst (applyToHTTPRequest_Successful example_completion_deps other_spelling_successful
        emptyRequest)) headerOperationState = Some [''succeeded'']
   \<and> reqHeader (fst (applyToHTTPRequest_Successful example_completion_deps other_spelling_successful
        emptyRequest)) ''nexus-operation-state'' = Some [''failed'']"
proof -
  have canon: "CanonicalMIMEHeaderKey ''nexus-operation-id'' = HeaderOperationID"
    "CanonicalMIMEHeaderKey ''nexus-operation-state'' = headerOperationState"
    by code_simp+
  have other: "''nexus-operation-id'' \<noteq> headerOperationState" "''nexus-operation-id'' \<noteq> HeaderOperationID"
    "''nexus-operation-id'' \<noteq> headerOperationStartTime" "''nexus-operation-id'' \<noteq> headerLink"
    "''nexus-operation-state'' \<noteq> headerOperationState" "''nexus-operation-state'' \<noteq> HeaderOperationID"
    "''nexus-operation-state'' \<noteq> headerOperationStartTime" "''nexus-operation-state'' \<noteq> headerLink"
    by (simp_all add: headerOperationState_def HeaderOperationID_def headerOperationStartTime_def
        headerLink_def)
  have later: "nilable_Get (cs_Header later_value_successful) HeaderOperationID = []"
    "baseHeader (cs_Header later_value_successful) emptyRequest = the (cs_Header later_value_successful)"
    "cs_OperationID later_value_successful = ''from-struct''"
    "Header_Values (the (cs_Header later_value_successful)) HeaderOperationID = Some [[], ''from-header'']"
    by (simp_all add: later_value_successful_def nilable_Get_def Header_Get_def Header_Values_def
        canonical_header_literals baseHeader_def HeaderOperationID_def)
  have spelled: "nilable_Get (cs_Header other_spelling_successful) HeaderOperationID = []"
    "baseHeader (cs_Header other_spelling_successful) emptyRequest
       = the (cs_Header other_spelling_successful)"
    "cs_OperationID other_spelling_successful = ''from-struct''"
    "the (cs_Header other_spelling_successful) ''nexus-operation-id'' = Some [''from-header'']"
    "the (cs_Header other_spelling_successful) ''nexus-operation-state'' = Some [''failed'']"
    by (simp_all add: other_spelling_successful_def nilable_Get_def Header_Get_def
        canonical_header_literals baseHeader_def HeaderOperationID_def)
  show ?thesis
    using canon later(3,4) spelled(4,5)
    by (simp add: successful_header_key[OF links_only_example] header_names_distinct other
        successful_before_state successful_before_id successful_before_other later(1) spelled(1,2,3)
        OperationStateSucceeded_def)
qed

text \<open>
  Claim C10, amended. \<^verbatim>\<open>Header.Get\<close> and \<^verbatim>\<open>Header.Set\<close> work on the entry under the
  canonical key, and \<^verbatim>\<open>Get\<close> returns its first value. Whichever completion variant
  builds the request, and provided the link encoder writes under the link header only:
  the entry under the canonical operation-state key is the completion's state, whatever
  the caller's header map held; the entry under the canonical operation-id key is the
  struct's \<^verbatim>\<open>OperationID\<close> exactly when \<^verbatim>\<open>Get\<close> returns the empty string for it on the
  caller's map (no entry under the canonical key, or an entry whose first value is
  empty) and the field is not empty, and otherwise is what the caller's map held; the
  same for the start-time header and \<^verbatim>\<open>StartTime\<close>; the entry under the canonical link
  key is the link encoder's, applied to \<^verbatim>\<open>StartLinks\<close>, exactly when \<^verbatim>\<open>Get\<close> returns the
  empty string for the link header on the caller's map, and otherwise is what the
  caller's map held; and every entry under another key (another spelling of these names
  included) is what the caller's map held, apart from the content type that the
  unsuccessful variant sets.
\<close>

theorem completion_request_headers:
  assumes "links_only deps"
  shows
    "(let H = reqHeader (fst (applyToHTTPRequest_Successful deps c request));
          base = baseHeader (cs_Header c) request
      in H headerOperationState = Some [OperationStateSucceeded]
       \<and> H HeaderOperationID =
           (if nilable_Get (cs_Header c) HeaderOperationID = [] \<and> cs_OperationID c \<noteq> []
            then Some [cs_OperationID c] else base HeaderOperationID)
       \<and> H headerOperationStartTime =
           (if nilable_Get (cs_Header c) headerOperationStartTime = [] \<and> \<not> IsZero (cs_StartTime c)
            then Some [formatHTTPTime deps (cs_StartTime c)] else base headerOperationStartTime)
       \<and> H headerLink =
           (if nilable_Get (cs_Header c) headerLink = []
            then fst (addLinksToHTTPHeader deps (cs_StartLinks c)
                        (successful_header_before_links deps c request)) headerLink
            else base headerLink)
       \<and> (\<forall>k. k \<noteq> headerOperationState \<and> k \<noteq> HeaderOperationID \<and>
              k \<noteq> headerOperationStartTime \<and> k \<noteq> headerLink \<longrightarrow> H k = base k))
   \<and> (let H = reqHeader (fst (applyToHTTPRequest_Unsuccessful deps u request));
          base = baseHeader (cu_Header u) request
      in H headerOperationState = Some [cu_State u]
       \<and> H HeaderOperationID =
           (if nilable_Get (cu_Header u) HeaderOperationID = [] \<and> cu_OperationID u \<noteq> []
            then Some [cu_OperationID u] else base HeaderOperationID)
       \<and> H headerOperationStartTime =
           (if nilable_Get (cu_Header u) headerOperationStartTime = [] \<and> \<not> IsZero (cu_StartTime u)
            then Some [formatHTTPTime deps (cu_StartTime u)] else base headerOperationStartTime)
       \<and> H headerLink =
           (if nilable_Get (cu_Header u) headerLink = []
            then fst (addLinksToHTTPHeader deps (cu_StartLinks u)
                        (unsuccessful_header_before_links deps u request)) headerLink
            else base headerLink)
       \<and> H headerContentType = Some [contentTypeJSON]
       \<and> (\<forall>k. k \<noteq> headerOperationState \<and> k \<noteq> HeaderOperationID \<and>
              k \<noteq> headerOperationStartTime \<and> k \<noteq> headerLink \<and> k \<noteq> headerContentType
              \<longrightarrow> H k = base k))"
proof -
  note s = successful_header_key[OF assms] and u = unsuccessful_header_key[OF assms]
  have sl: "reqHeader (fst (applyToHTTPRequest_Successful deps c request)) headerLink =
          (if nilable_Get (cs_Header c) headerLink = []
           then fst (addLinksToHTTPHeader deps (cs_StartLinks c)
                       (successful_header_before_links deps c request)) headerLink
           else baseHeader (cs_Header c) request headerLink)"
    by (simp add: successful_header successful_before_link)
  have ul: "reqHeader (fst (applyToHTTPRequest_Unsuccessful deps u request)) headerLink =
          (if nilable_Get (cu_Header u) headerLink = []
           then fst (addLinksToHTTPHeader deps (cu_StartLinks u)
                       (unsuccessful_header_before_links deps u request)) headerLink
           else baseHeader (cu_Header u) request headerLink)"
    by (simp add: unsuccessful_header unsuccessful_before_link)
  have so: "\<forall>k. k \<noteq> headerOperationState \<and> k \<noteq> HeaderOperationID \<and>
              k \<noteq> headerOperationStartTime \<and> k \<noteq> headerLink \<longrightarrow>
            reqHeader (fst (applyToHTTPRequest_Successful deps c request)) k
              = baseHeader (cs_Header c) request k"
    by (simp add: s successful_before_other)
  have uo: "\<forall>k. k \<noteq> headerOperationState \<and> k \<noteq> HeaderOperationID \<and>
              k \<noteq> headerOperationStartTime \<and> k \<noteq> headerLink \<and> k \<noteq> headerContentType \<longrightarrow>
            reqHeader (fst (applyToHTTPRequest_Unsuccessful deps u request)) k
              = baseHeader (cu_Header u) request k"
    by (simp add: u unsuccessful_before_other)
  have sk: "reqHeader (fst (applyToHTTPRequest_Successful deps c request)) headerOperationState
              = Some [OperationStateSucceeded]"
    "reqHeader (fst (applyToHTTPRequest_Successful deps c request)) HeaderOperationID =
           (if nilable_Get (cs_Header c) HeaderOperationID = [] \<and> cs_OperationID c \<noteq> []
            then Some [cs_OperationID c] else baseHeader (cs_Header c) request HeaderOperationID)"
    "reqHeader (fst (applyToHTTPRequest_Successful deps c request)) headerOperationStartTime =
           (if nilable_Get (cs_Header c) headerOperationStartTime = [] \<and> \<not> IsZero (cs_StartTime c)
            then Some [formatHTTPTime deps (cs_StartTime c)]
            else baseHeader (cs_Header c) request headerOperationStartTime)"
    by (simp_all only: s[OF header_names_distinct(1)] s[OF header_names_distinct(2)]
        s[OF header_names_distinct(3)] successful_before_state successful_before_id
        successful_before_start)
  have uk: "reqHeader (fst (applyToHTTPRequest_Unsuccessful deps u request)) headerOperationState
              = Some [cu_State u]"
    "reqHeader (fst (applyToHTTPRequest_Unsuccessful deps u request)) HeaderOperationID =
           (if nilable_Get (cu_Header u) HeaderOperationID = [] \<and> cu_OperationID u \<noteq> []
            then Some [cu_OperationID u] else baseHeader (cu_Header u) request HeaderOperationID)"
    "reqHeader (fst (applyToHTTPRequest_Unsuccessful deps u request)) headerOperationStartTime =
           (if nilable_Get (cu_Header u) headerOperationStartTime = [] \<and> \<not> IsZero (cu_StartTime u)
            then Some [formatHTTPTime deps (cu_StartTime u)]
            else baseHeader (cu_Header u) request headerOperationStartTime)"
    "reqHeader (fst (applyToHTTPRequest_Unsuccessful deps u request)) headerContentType
              = Some [contentTypeJSON]"
    by (simp_all only: u[OF header_names_distinct(1)] u[OF header_names_distinct(2)]
        u[OF header_names_distinct(3)] u[OF header_names_distinct(4)] unsuccessful_before_state
        unsuccessful_before_id unsuccessful_before_start unsuccessful_before_content_type)
  show ?thesis
    unfolding Let_def
    using sl ul so uo sk uk by (intro conjI) assumption+
qed

theorem completion_request_headers_witness:
  "links_only example_completion_deps
   \<and> reqHeader (fst (applyToHTTPRequest_Successful example_completion_deps example_successful
        emptyRequest)) headerOperationState = Some [''succeeded'']
   \<and> reqHeader (fst (applyToHTTPRequest_Successful example_completion_deps example_successful
        emptyRequest)) HeaderOperationID = Some [''from-header'']
   \<and> reqHeader (fst (applyToHTTPRequest_Successful example_completion_deps example_successful
        emptyRequest)) headerOperationStartTime = Some [''Mon, 02 Jan 2006 15:04:05 GMT'']
   \<and> reqHeader (fst (applyToHTTPRequest_Successful example_completion_deps example_successful
        emptyRequest)) headerLink = Some [''link-1'']
   \<and> reqHeader (fst (applyToHTTPRequest_Unsuccessful example_completion_deps example_unsuccessful
        emptyRequest)) headerOperationState = Some [''failed'']
   \<and> reqHeader (fst (applyToHTTPRequest_Unsuccessful example_completion_deps example_unsuccessful
        emptyRequest)) HeaderOperationID = Some [''from-struct'']
   \<and> reqHeader (fst (applyToHTTPRequest_Unsuccessful example_completion_deps example_unsuccessful
        emptyRequest)) headerOperationStartTime = None
   \<and> reqHeader (fst (applyToHTTPRequest_Unsuccessful example_completion_deps example_unsuccessful
        emptyRequest)) headerLink = Some [''link-0'']
   \<and> reqHeader (fst (applyToHTTPRequest_Unsuccessful example_completion_deps example_unsuccessful
        emptyRequest)) headerContentType = Some [''application/json'']"
proof -
  have successful: "nilable_Get (cs_Header example_successful) HeaderOperationID = ''from-header''"
    "nilable_Get (cs_Header example_successful) headerOperationStartTime = []"
    "nilable_Get (cs_Header example_successful) headerLink = []"
    "baseHeader (cs_Header example_successful) emptyRequest HeaderOperationID = Some [''from-header'']"
    "cs_StartTime example_successful = 7" "cs_StartLinks example_successful = [''link-1'']"
    by (simp_all add: example_successful_def nilable_Get_def Header_Get_names baseHeader_def
        header_names_distinct header_names_distinct[THEN not_sym])
  have unsuccessful: "nilable_Get (cu_Header example_unsuccessful) HeaderOperationID = []"
    "nilable_Get (cu_Header example_unsuccessful) headerOperationStartTime = []"
    "nilable_Get (cu_Header example_unsuccessful) headerLink = ''link-0''"
    "baseHeader (cu_Header example_unsuccessful) emptyRequest headerOperationStartTime = None"
    "baseHeader (cu_Header example_unsuccessful) emptyRequest headerLink = Some [''link-0'']"
    "cu_StartTime example_unsuccessful = 0" "cu_OperationID example_unsuccessful = ''from-struct''"
    "cu_State example_unsuccessful = ''failed''"
    by (simp_all add: example_unsuccessful_def nilable_Get_def Header_Get_names baseHeader_def
        header_names_distinct header_names_distinct[THEN not_sym] OperationStateFailed_def)
  have encoder: "fst (addLinksToHTTPHeader example_completion_deps [''link-1''] h) headerLink
                 = Some [''link-1'']"
    "formatHTTPTime example_completion_deps t = ''Mon, 02 Jan 2006 15:04:05 GMT''" for h t
    by (simp_all add: example_completion_deps_def)
  show ?thesis
    using completion_request_headers[OF links_only_example, of example_successful emptyRequest
        example_unsuccessful] links_only_example
    by (simp add: Let_def successful unsuccessful encoder IsZero_def OperationStateSucceeded_def
        contentTypeJSON_def)
qed


end
